theory Spec2Isabelle
  imports Main
begin

section \<open>Python strings\<close>

text \<open>
  A Python \<open>str\<close> is modelled as a \<open>string\<close> whose characters are the code points
  0..255. On that range \<open>str.isspace\<close>, and with it the default \<open>str.strip()\<close> and
  \<open>str.split()\<close>, treat exactly the code points 9..13, 28..32, 133 and 160 as white
  space.
\<close>

definition py_isspace :: "char \<Rightarrow> bool" where
  "py_isspace c =
     (let n = (of_char c :: nat)
      in (9 \<le> n \<and> n \<le> 13) \<or> (28 \<le> n \<and> n \<le> 32) \<or> n = 133 \<or> n = 160)"

text \<open>\<open>s.strip()\<close>: leading and trailing white space removed.\<close>

definition py_strip :: "string \<Rightarrow> string" where
  "py_strip s = rev (dropWhile py_isspace (rev (dropWhile py_isspace s)))"

text \<open>
  \<open>s.split()\<close> with no separator: the maximal runs of characters that are not white
  space, in order; no empty string is ever produced.
\<close>

function py_split :: "string \<Rightarrow> string list" where
  "py_split [] = []"
| "py_split (c # cs) =
     (if py_isspace c then py_split cs
      else takeWhile (\<lambda>x. \<not> py_isspace x) (c # cs)
             # py_split (dropWhile (\<lambda>x. \<not> py_isspace x) cs))"
  by pat_completeness auto
termination
  by (relation "measure length") (auto simp: less_Suc_eq_le length_dropWhile_le)

text \<open>\<open>sep.join(ws)\<close>.\<close>

fun py_join :: "string \<Rightarrow> string list \<Rightarrow> string" where
  "py_join sep [] = []"
| "py_join sep [w] = w"
| "py_join sep (w # v # ws) = w @ sep @ py_join sep (v # ws)"

text \<open>\<open>s.replace(old, new)\<close> for a one-character \<open>old\<close>.\<close>

definition py_replace :: "char \<Rightarrow> string \<Rightarrow> string \<Rightarrow> string" where
  "py_replace old new s = concat (map (\<lambda>x. if x = old then new else [x]) s)"

section \<open>data\_processor.py: text cleaning\<close>

text \<open>
  \<open>StockNewsProcessor.clean_text\<close>. The argument is what \<open>article.get(...)\<close>
  returned: a string, or \<open>None\<close> for a JSON null. \<open>not text\<close> holds for \<open>None\<close> and
  for the empty string.
\<close>

definition clean_text :: "string option \<Rightarrow> string" where
  "clean_text text =
     (case text of
        None \<Rightarrow> []
      | Some t \<Rightarrow>
          if t = [] \<or> py_strip t = [] then []
          else py_join '' '' (py_split (py_strip t)))"

section \<open>sql\_generator.py: text cleaning\<close>

text \<open>
  \<open>SQLGenerator.clean_text\<close>: the same collapsing, then every single quote doubled;
  \<open>None\<close> instead of the empty string.
\<close>

definition sql_clean_text :: "string option \<Rightarrow> string option" where
  "sql_clean_text text =
     (case text of
        None \<Rightarrow> None
      | Some t \<Rightarrow>
          if t = [] \<or> py_strip t = [] then None
          else Some (py_replace (CHR 0x27) [CHR 0x27, CHR 0x27]
                       (py_join '' '' (py_split (py_strip t)))))"

section \<open>Python values read from JSON\<close>

text \<open>
  What \<open>json.load\<close> and \<open>response.json()\<close> return. Numbers are integers here
  (fractional JSON numbers are left out). \<open>JObj kvs\<close> is the dict whose lookup is
  \<open>map_of kvs\<close>.
\<close>

datatype json =
    JNull
  | JBool bool
  | JInt int
  | JStr string
  | JArr "json list"
  | JObj "(string \<times> json) list"

text \<open>The exceptions the crawler can meet while it handles a response.\<close>

datatype py_error =
    RequestException
  | JSONDecodeError
  | KeyError
  | TypeError
  | AttributeError
  | UnboundLocalError

text \<open>Truth value of a Python object (\<open>if x:\<close>, \<open>not x\<close>).\<close>

fun truthy :: "json \<Rightarrow> bool" where
  "truthy JNull = False"
| "truthy (JBool b) = b"
| "truthy (JInt n) = (n \<noteq> 0)"
| "truthy (JStr s) = (s \<noteq> [])"
| "truthy (JArr xs) = (xs \<noteq> [])"
| "truthy (JObj kvs) = (kvs \<noteq> [])"

text \<open>
  Members of a Python \<open>set\<close>: the hashable values, compared with \<open>==\<close>, under which
  \<open>True == 1\<close> and \<open>False == 0\<close>. Lists and dicts are unhashable: \<open>hash_key\<close> is
  \<open>None\<close> where Python raises \<open>TypeError\<close>.
\<close>

datatype pykey = KNone | KInt int | KStr string

fun hash_key :: "json \<Rightarrow> pykey option" where
  "hash_key JNull = Some KNone"
| "hash_key (JBool b) = Some (KInt (if b then 1 else 0))"
| "hash_key (JInt n) = Some (KInt n)"
| "hash_key (JStr s) = Some (KStr s)"
| "hash_key (JArr xs) = None"
| "hash_key (JObj kvs) = None"

fun json_of_key :: "pykey \<Rightarrow> json" where
  "json_of_key KNone = JNull"
| "json_of_key (KInt n) = JInt n"
| "json_of_key (KStr s) = JStr s"

text \<open>\<open>d.get(k, default)\<close> on a dict.\<close>

definition dict_get :: "(string \<times> json) list \<Rightarrow> string \<Rightarrow> json \<Rightarrow> json" where
  "dict_get kvs k dflt = (case map_of kvs k of None \<Rightarrow> dflt | Some v \<Rightarrow> v)"

text \<open>\<open>x.get(k, default)\<close> on any value: only a dict has \<open>get\<close>.\<close>

definition py_get :: "json \<Rightarrow> string \<Rightarrow> json \<Rightarrow> py_error + json" where
  "py_get x k dflt =
     (case x of JObj kvs \<Rightarrow> Inr (dict_get kvs k dflt) | _ \<Rightarrow> Inl AttributeError)"

text \<open>\<open>x[k]\<close> with a string key.\<close>

definition py_item :: "json \<Rightarrow> string \<Rightarrow> py_error + json" where
  "py_item x k =
     (case x of
        JObj kvs \<Rightarrow> (case map_of kvs k of None \<Rightarrow> Inl KeyError | Some v \<Rightarrow> Inr v)
      | _ \<Rightarrow> Inl TypeError)"

text \<open>
  The items a \<open>for\<close> loop over \<open>x\<close> visits, after \<open>len(x)\<close> has been taken: a list
  gives its elements, a string its characters, a dict its keys; anything else has no
  \<open>len\<close>.
\<close>

definition py_iter :: "json \<Rightarrow> py_error + json list" where
  "py_iter x =
     (case x of
        JArr xs \<Rightarrow> Inr xs
      | JStr s \<Rightarrow> Inr (map (\<lambda>c. JStr [c]) s)
      | JObj kvs \<Rightarrow> Inr (map (\<lambda>kv. JStr (fst kv)) kvs)
      | _ \<Rightarrow> Inl TypeError)"

text \<open>\<open>str(n)\<close> for a natural number.\<close>

definition digit_char :: "nat \<Rightarrow> char" where
  "digit_char d = ''0123456789'' ! d"

function str_nat :: "nat \<Rightarrow> string" where
  "str_nat n = (if n < 10 then [digit_char n] else str_nat (n div 10) @ [digit_char (n mod 10)])"
  by pat_completeness auto
termination
  by (relation "measure id") auto

declare str_nat.simps [simp del]

definition str_int :: "int \<Rightarrow> string" where
  "str_int i = (if i < 0 then CHR ''-'' # str_nat (nat (- i)) else str_nat (nat i))"

text \<open>\<open>os.path.join(a, b)\<close> on POSIX.\<close>

definition os_path_join :: "string \<Rightarrow> string \<Rightarrow> string" where
  "os_path_join a b =
     (if b \<noteq> [] \<and> hd b = CHR ''/'' then b
      else if a = [] \<or> last a = CHR ''/'' then a @ b
      else a @ ''/'' @ b)"

section \<open>crawler.py\<close>

text \<open>
  \<open>config.yaml\<close> as the crawler reads it. \<open>query\<close>, \<open>language\<close> and \<open>api_key\<close> are
  read with \<open>self.config[...]\<close> and are taken to be present; the others are read with
  \<open>self.config.get(key, default)\<close>, \<open>None\<close> standing for an absent key.
\<close>

record config =
  query :: string
  language :: string
  api_key :: string
  data_path :: "string option"
  batch_size :: "int option"
  days_back :: "int option"
  max_total_articles :: "int option"

definition cfg_data_path :: "config \<Rightarrow> string" where
  "cfg_data_path cfg = (case data_path cfg of None \<Rightarrow> ''data'' | Some p \<Rightarrow> p)"

definition cfg_batch_size :: "config \<Rightarrow> int" where
  "cfg_batch_size cfg = (case batch_size cfg of None \<Rightarrow> 20 | Some n \<Rightarrow> n)"

definition cfg_days_back :: "config \<Rightarrow> int" where
  "cfg_days_back cfg = (case days_back cfg of None \<Rightarrow> 7 | Some n \<Rightarrow> n)"

definition cfg_max_total :: "config \<Rightarrow> int" where
  "cfg_max_total cfg = (case max_total_articles cfg of None \<Rightarrow> 1000 | Some n \<Rightarrow> n)"

text \<open>The object: \<open>self.config\<close>, \<open>self.checkpoint_file\<close>, \<open>self.collected_urls\<close>.\<close>

record crawler =
  config :: config
  checkpoint_file :: string
  collected_urls :: "pykey set"

text \<open>
  A file holds a JSON document, or something \<open>json.load\<close> rejects. Writing a document
  with \<open>json.dump\<close> and reading it back with \<open>json.load\<close> gives the document again;
  the text in between is not modelled. Directories are not modelled: \<open>os.makedirs\<close>
  and \<open>open(..., 'w')\<close> are taken to succeed.
\<close>

datatype file_content = Json json | Corrupt

text \<open>
  The world outside the object: the files, the number of clock readings and the number
  of HTTP requests made so far.
\<close>

record world =
  files :: "string \<Rightarrow> file_content option"
  ticks :: nat
  requests :: nat

text \<open>The query parameters of one request to the news API.\<close>

record params =
  p_q :: string
  p_language :: string
  p_pageSize :: int
  p_from :: string
  p_to :: string
  p_sortBy :: string
  p_apiKey :: string
  p_page :: "int option"

text \<open>
  What \<open>requests.get\<close>, \<open>raise_for_status\<close> and \<open>response.json()\<close> come to:
  the request fails, the status is an error status, the body is not JSON, or the
  body parses.
\<close>

datatype http_outcome = TransportFailure | BadStatus | NotJson | Body json

text \<open>
  What the program cannot decide itself: the answer to the \<open>n\<close>-th request, the clock
  (\<open>date_minus t d\<close> is \<open>(now - timedelta(days=d)).strftime('%Y-%m-%d')\<close> at the
  \<open>t\<close>-th reading, \<open>isoformat t\<close> is \<open>now.isoformat()\<close>, \<open>stamp t\<close> is
  \<open>now.strftime('%Y%m%d_%H%M%S')\<close>) and the order in which \<open>list(s)\<close> enumerates a
  set.
\<close>

record env =
  http :: "nat \<Rightarrow> params \<Rightarrow> http_outcome"
  date_minus :: "nat \<Rightarrow> int \<Rightarrow> string"
  isoformat :: "nat \<Rightarrow> string"
  stamp :: "nat \<Rightarrow> string"
  list_of_set :: "pykey set \<Rightarrow> pykey list"

text \<open>
  \<open>list(s)\<close> of a Python set lists every member once; the order is the runtime's.
\<close>

definition enumerates :: "env \<Rightarrow> pykey set \<Rightarrow> bool" where
  "enumerates e S = (set (list_of_set e S) = S \<and> distinct (list_of_set e S))"

text \<open>\<open>set(x)\<close>: \<open>TypeError\<close> when \<open>x\<close> is not iterable or an item is unhashable.\<close>

fun keys_of :: "json list \<Rightarrow> pykey list option" where
  "keys_of [] = Some []"
| "keys_of (x # xs) =
     (case hash_key x of
        None \<Rightarrow> None
      | Some k \<Rightarrow> (case keys_of xs of None \<Rightarrow> None | Some ks \<Rightarrow> Some (k # ks)))"

definition py_set :: "json \<Rightarrow> py_error + pykey set" where
  "py_set x =
     (case py_iter x of
        Inl e \<Rightarrow> Inl e
      | Inr xs \<Rightarrow> (case keys_of xs of None \<Rightarrow> Inl TypeError | Some ks \<Rightarrow> Inr (set ks)))"

text \<open>
  \<open>load_checkpoint\<close>. Without a file nothing changes. Any exception inside the
  \<open>try\<close> resets \<open>collected_urls\<close> to the empty set.
\<close>

definition load_checkpoint :: "crawler \<Rightarrow> world \<Rightarrow> crawler" where
  "load_checkpoint c w =
     (case files w (checkpoint_file c) of
        None \<Rightarrow> c
      | Some Corrupt \<Rightarrow> c\<lparr>collected_urls := {}\<rparr>
      | Some (Json checkpoint) \<Rightarrow>
          (case py_get checkpoint ''collected_urls'' (JArr []) of
             Inl e \<Rightarrow> c\<lparr>collected_urls := {}\<rparr>
           | Inr v \<Rightarrow>
               (case py_set v of
                  Inl e \<Rightarrow> c\<lparr>collected_urls := {}\<rparr>
                | Inr s \<Rightarrow> c\<lparr>collected_urls := s\<rparr>)))"

text \<open>\<open>save_checkpoint\<close>: the document, then the write.\<close>

definition checkpoint_doc :: "env \<Rightarrow> crawler \<Rightarrow> world \<Rightarrow> json" where
  "checkpoint_doc e c w =
     JObj [(''collected_urls'', JArr (map json_of_key (list_of_set e (collected_urls c)))),
           (''last_run'', JStr (isoformat e (ticks w))),
           (''total_articles'', JInt (int (card (collected_urls c))))]"

definition save_checkpoint :: "env \<Rightarrow> crawler \<Rightarrow> world \<Rightarrow> crawler \<times> world" where
  "save_checkpoint e c w =
     (c, w\<lparr>files := (files w)(checkpoint_file c \<mapsto> Json (checkpoint_doc e c w)),
           ticks := ticks w + 1\<rparr>)"

text \<open>The dict that \<open>get_articles_batch\<close> appends for a new article.\<close>

definition new_article ::
  "(string \<times> json) list \<Rightarrow> json \<Rightarrow> json \<Rightarrow> string \<Rightarrow> string \<Rightarrow> json" where
  "new_article kvs article_url source_name scraped span =
     JObj [(''title'', dict_get kvs ''title'' (JStr [])),
           (''description'', dict_get kvs ''description'' (JStr [])),
           (''url'', article_url),
           (''source'', source_name),
           (''published_at'', dict_get kvs ''publishedAt'' (JStr [])),
           (''author'', dict_get kvs ''author'' (JStr [])),
           (''image_url'', dict_get kvs ''urlToImage'' (JStr [])),
           (''scraped_at'', JStr scraped),
           (''date_range'', JStr span)]"

text \<open>
  The loop \<open>for article in data['articles']\<close>. It carries the list \<open>articles\<close>,
  \<open>self.collected_urls\<close> and the clock. An exception leaves the loop at once, with
  what the earlier rounds did to \<open>collected_urls\<close> still in place:
  \<open>article.get\<close> on something that is not a dict, the membership test on an
  unhashable URL, \<open>.get('name', '')\<close> on a source that is not a dict.
\<close>

fun collect ::
  "env \<Rightarrow> string \<Rightarrow> json list \<Rightarrow> json list \<Rightarrow> pykey set \<Rightarrow> nat
     \<Rightarrow> py_error option \<times> json list \<times> pykey set \<times> nat" where
  "collect e span [] articles urls t = (None, articles, urls, t)"
| "collect e span (article # rest) articles urls t =
     (case article of
        JObj kvs \<Rightarrow>
          (let article_url = dict_get kvs ''url'' (JStr [])
           in if truthy article_url then
                (case hash_key article_url of
                   None \<Rightarrow> (Some TypeError, articles, urls, t)
                 | Some k \<Rightarrow>
                     if k \<in> urls then collect e span rest articles urls t
                     else
                       (case py_get (dict_get kvs ''source'' (JObj [])) ''name'' (JStr []) of
                          Inl err \<Rightarrow> (Some err, articles, urls, t)
                        | Inr name \<Rightarrow>
                            collect e span rest
                              (articles @ [new_article kvs article_url name (isoformat e t) span])
                              (insert k urls) (Suc t)))
              else collect e span rest articles urls t)
      | _ \<Rightarrow> (Some AttributeError, articles, urls, t))"

text \<open>
  The body of the \<open>try\<close> in \<open>get_articles_batch\<close>, from \<open>requests.get\<close> to the
  \<open>return\<close>: the exception raised or the pair returned, with \<open>collected_urls\<close> and
  the clock as they are then. When \<open>status\<close> is not \<open>'ok'\<close>, \<open>total_results\<close> was
  never assigned and the \<open>return\<close> raises \<open>UnboundLocalError\<close>.
\<close>

definition handle_response ::
  "env \<Rightarrow> string \<Rightarrow> http_outcome \<Rightarrow> pykey set \<Rightarrow> nat
     \<Rightarrow> (py_error + json list \<times> json) \<times> pykey set \<times> nat" where
  "handle_response e span outcome urls t =
     (case outcome of
        TransportFailure \<Rightarrow> (Inl RequestException, urls, t)
      | BadStatus \<Rightarrow> (Inl RequestException, urls, t)
      | NotJson \<Rightarrow> (Inl JSONDecodeError, urls, t)
      | Body data \<Rightarrow>
          (case py_item data ''status'' of
             Inl err \<Rightarrow> (Inl err, urls, t)
           | Inr status \<Rightarrow>
               if status = JStr ''ok'' then
                 (case py_get data ''totalResults'' (JInt 0) of
                    Inl err \<Rightarrow> (Inl err, urls, t)
                  | Inr total_results \<Rightarrow>
                      (case py_item data ''articles'' of
                         Inl err \<Rightarrow> (Inl err, urls, t)
                       | Inr found \<Rightarrow>
                           (case py_iter found of
                              Inl err \<Rightarrow> (Inl err, urls, t)
                            | Inr items \<Rightarrow>
                                (case collect e span items [] urls t of
                                   (Some err, articles, urls', t') \<Rightarrow> (Inl err, urls', t')
                                 | (None, articles, urls', t') \<Rightarrow>
                                     (Inr (articles, total_results), urls', t')))))
               else (Inl UnboundLocalError, urls, t)))"

definition request_params :: "env \<Rightarrow> int \<Rightarrow> int \<Rightarrow> crawler \<Rightarrow> world \<Rightarrow> params" where
  "request_params e page date_offset c w =
     \<lparr>p_q = query (config c),
      p_language = language (config c),
      p_pageSize = min (cfg_batch_size (config c)) 100,
      p_from = date_minus e (ticks w) (cfg_days_back (config c) + date_offset),
      p_to = date_minus e (ticks w + 1) date_offset,
      p_sortBy = ''publishedAt'',
      p_apiKey = api_key (config c),
      p_page = (if page = 1 then Some page else None)\<rparr>"

definition try_fetch ::
  "env \<Rightarrow> int \<Rightarrow> int \<Rightarrow> crawler \<Rightarrow> world
     \<Rightarrow> (py_error + json list \<times> json) \<times> crawler \<times> world" where
  "try_fetch e page date_offset c w =
     (let ps = request_params e page date_offset c w;
          outcome = http e (requests w) ps
      in case handle_response e (p_from ps @ ''_to_'' @ p_to ps) outcome
                (collected_urls c) (ticks w + 2) of
           (res, urls, t) \<Rightarrow>
             (res, c\<lparr>collected_urls := urls\<rparr>, w\<lparr>ticks := t, requests := requests w + 1\<rparr>))"

text \<open>
  \<open>get_articles_batch\<close>: both \<open>except\<close> clauses print and return \<open>[], 0\<close>.
\<close>

definition get_articles_batch ::
  "env \<Rightarrow> int \<Rightarrow> int \<Rightarrow> crawler \<Rightarrow> world \<Rightarrow> (json list \<times> json) \<times> crawler \<times> world" where
  "get_articles_batch e page date_offset c w =
     (case try_fetch e page date_offset c w of
        (Inl err, c', w') \<Rightarrow> (([], JInt 0), c', w')
      | (Inr res, c', w') \<Rightarrow> (res, c', w'))"

definition save_json :: "env \<Rightarrow> json list \<Rightarrow> nat \<Rightarrow> crawler \<Rightarrow> world \<Rightarrow> string \<times> world" where
  "save_json e articles num c w =
     (let filename = ''stock_news_batch_'' @ str_nat num @ ''_'' @ stamp e (ticks w) @ ''.json'';
          filepath = os_path_join (cfg_data_path (config c)) filename
      in (filepath,
          w\<lparr>files := (files w)(filepath \<mapsto> Json (JArr articles)), ticks := ticks w + 1\<rparr>))"

text \<open>The local variables of \<open>run\<close> together with the object and the world.\<close>

record run_state =
  all_articles :: "json list"
  batch_num :: nat
  self :: crawler
  outside :: world

text \<open>
  What \<open>run\<close> does with a batch that is not empty: extend \<open>all_articles\<close>, write the
  batch file, write the checkpoint, count the batch.
\<close>

definition keep_batch :: "env \<Rightarrow> json list \<Rightarrow> run_state \<Rightarrow> run_state" where
  "keep_batch e articles s =
     (case save_json e articles (batch_num s) (self s) (outside s) of
        (filename, w1) \<Rightarrow>
          (case save_checkpoint e (self s) w1 of
             (c2, w2) \<Rightarrow>
               s\<lparr>all_articles := all_articles s @ articles,
                 batch_num := batch_num s + 1,
                 self := c2,
                 outside := w2\<rparr>))"

definition search_strategies :: "string list" where
  "search_strategies =
     [''stock market news'', ''financial news'', ''investment news'', ''market analysis'',
      ''economic news'', ''trading news'', ''business news'']"

text \<open>The loop \<open>for strategy in search_strategies\<close>.\<close>

fun try_strategies :: "env \<Rightarrow> int \<Rightarrow> string list \<Rightarrow> run_state \<Rightarrow> run_state" where
  "try_strategies e max_total [] s = s"
| "try_strategies e max_total (strategy # rest) s =
     (if int (length (all_articles s)) \<ge> max_total then s
      else
        (case get_articles_batch e 1 0
                ((self s)\<lparr>config := (config (self s))\<lparr>query := strategy\<rparr>\<rparr>) (outside s) of
           ((articles, total_results), c2, w2) \<Rightarrow>
             try_strategies e max_total rest
               (if articles \<noteq> [] then keep_batch e articles (s\<lparr>self := c2, outside := w2\<rparr>)
                else s\<lparr>self := c2, outside := w2\<rparr>)))"

text \<open>The loop \<open>while len(all_articles) < max_total and date_offset <= max_days_back\<close>.\<close>

function fetch_older :: "env \<Rightarrow> int \<Rightarrow> int \<Rightarrow> int \<Rightarrow> run_state \<Rightarrow> run_state" where
  "fetch_older e max_total max_days_back date_offset s =
     (if int (length (all_articles s)) < max_total \<and> date_offset \<le> max_days_back then
        (case get_articles_batch e 1 date_offset (self s) (outside s) of
           ((articles, total_results), c2, w2) \<Rightarrow>
             if articles = [] then
               fetch_older e max_total max_days_back (date_offset + 1)
                 (s\<lparr>self := c2, outside := w2\<rparr>)
             else
               fetch_older e max_total max_days_back (date_offset + 1)
                 (keep_batch e articles (s\<lparr>self := c2, outside := w2\<rparr>)))
      else s)"
  by pat_completeness auto
termination
  by (relation "measure (\<lambda>(e, max_total, max_days_back, date_offset, s).
                    nat (max_days_back + 1 - date_offset))") auto

declare fetch_older.simps [simp del]

text \<open>
  \<open>run\<close>. \<open>time.sleep\<close> and the printing are left out. The result is the list
  returned, with the object and the world as \<open>run\<close> leaves them.
\<close>

definition run :: "env \<Rightarrow> crawler \<Rightarrow> world \<Rightarrow> json list \<times> crawler \<times> world" where
  "run e c w =
     (let max_total = cfg_max_total (config c);
          max_days_back = cfg_days_back (config c);
          s0 = \<lparr>all_articles = [], batch_num = 1, self = c, outside = w\<rparr>;
          s1 = (case get_articles_batch e 1 0 c w of
                  ((articles, total_results), c1, w1) \<Rightarrow>
                    if articles \<noteq> [] then keep_batch e articles (s0\<lparr>self := c1, outside := w1\<rparr>)
                    else s0\<lparr>self := c1, outside := w1\<rparr>);
          original_query = query (config (self s1));
          s2 = try_strategies e max_total search_strategies s1;
          s3 = s2\<lparr>self := (self s2)\<lparr>config := (config (self s2))\<lparr>query := original_query\<rparr>\<rparr>\<rparr>;
          s4 = fetch_older e max_total max_days_back 1 s3
      in (all_articles s4, self s4, outside s4))"

section \<open>Library functions of the Normalizer and the SQL emitter\<close>

text \<open>
  The two later stages call into the Python library and into pandas. What those
  functions compute is not part of this program, so they are parameters, and every
  fact below holds whatever they compute. \<open>None\<close> is a raised exception, for
  \<open>to_datetime\<close> it is \<open>NaT\<close>.
  \<^item> \<open>fromisoformat s\<close> is \<open>datetime.fromisoformat(s)\<close>;
  \<^item> \<open>strptime s\<close> is \<open>datetime.strptime(s, '%Y-%m-%d %H:%M:%S')\<close>;
  \<^item> \<open>strftime_seconds dt\<close> is \<open>dt.strftime('%Y-%m-%d %H:%M:%S')\<close> and
    \<open>strftime_day dt\<close> is \<open>dt.strftime('%Y-%m-%d')\<close>;
  \<^item> \<open>netloc u\<close> is \<open>urlparse(u).netloc\<close>;
  \<^item> \<open>to_datetime col i\<close> is row \<open>i\<close> of \<open>pd.to_datetime(col, errors='coerce')\<close>,
    which may depend on the whole column, and \<open>dt_date\<close> is \<open>.dt.date\<close> on one value.
\<close>

record 'dt pylib =
  fromisoformat :: "string \<Rightarrow> 'dt option"
  strptime :: "string \<Rightarrow> 'dt option"
  strftime_seconds :: "'dt \<Rightarrow> string option"
  strftime_day :: "'dt \<Rightarrow> string option"
  netloc :: "string \<Rightarrow> string option"
  to_datetime :: "string list \<Rightarrow> nat \<Rightarrow> 'dt option"
  dt_date :: "'dt \<Rightarrow> 'dt"

text \<open>
  An article as a batch file holds it, with the nine keys that the crawler writes; a
  value is a string or \<open>None\<close> (JSON null).
\<close>

record raw_article =
  raw_title :: "string option"
  raw_description :: "string option"
  raw_url :: "string option"
  raw_source :: "string option"
  raw_published_at :: "string option"
  raw_author :: "string option"
  raw_image_url :: "string option"
  raw_scraped_at :: "string option"
  raw_date_range :: "string option"

text \<open>\<open>bool(x)\<close> and \<open>not x\<close> for a string or \<open>None\<close>.\<close>

definition py_bool :: "string option \<Rightarrow> bool" where
  "py_bool x = (case x of None \<Rightarrow> False | Some s \<Rightarrow> s \<noteq> [])"

text \<open>
  The body of the \<open>try\<close> that \<open>normalize_datetime\<close> and \<open>extract_date_only\<close> share,
  for a string that is not empty: parse by one of the two forms, then format.
\<close>

definition parse_datetime :: "'dt pylib \<Rightarrow> string \<Rightarrow> 'dt option" where
  "parse_datetime lib dt_string =
     (if CHR ''T'' \<in> set dt_string
      then fromisoformat lib (py_replace (CHR ''Z'') ''+00:00'' dt_string)
      else strptime lib dt_string)"

definition format_datetime ::
  "'dt pylib \<Rightarrow> ('dt \<Rightarrow> string option) \<Rightarrow> string \<Rightarrow> string option" where
  "format_datetime lib fmt dt_string =
     (case parse_datetime lib dt_string of None \<Rightarrow> None | Some dt \<Rightarrow> fmt dt)"

section \<open>data\_processor.py: the Normalizer\<close>

text \<open>\<open>normalize_datetime\<close>: the bare \<open>except\<close> returns the argument.\<close>

definition normalize_datetime :: "'dt pylib \<Rightarrow> string option \<Rightarrow> string" where
  "normalize_datetime lib dt_string =
     (if \<not> py_bool dt_string then []
      else case format_datetime lib (strftime_seconds lib) (the dt_string) of
             None \<Rightarrow> the dt_string
           | Some text \<Rightarrow> text)"

definition extract_domain :: "'dt pylib \<Rightarrow> string option \<Rightarrow> string" where
  "extract_domain lib u =
     (if \<not> py_bool u then []
      else case netloc lib (the u) of None \<Rightarrow> [] | Some d \<Rightarrow> d)"

definition extract_date_only :: "'dt pylib \<Rightarrow> string option \<Rightarrow> string" where
  "extract_date_only lib dt_string =
     (if \<not> py_bool dt_string then []
      else case format_datetime lib (strftime_day lib) (the dt_string) of
             None \<Rightarrow> []
           | Some text \<Rightarrow> text)"

definition count_words :: "string option \<Rightarrow> nat" where
  "count_words text = (if \<not> py_bool text then 0 else length (py_split (the text)))"

text \<open>
  A normalized article. The two timestamp columns and the two date columns change
  their type in \<open>create_dataframe\<close>, so they are parameters of the record.
\<close>

record ('t, 'd) normalized =
  title :: string
  description :: string
  url :: "string option"
  source :: "string option"
  published_at :: 't
  author :: string
  image_url :: "string option"
  scraped_at :: 't
  date_range :: "string option"
  has_image :: bool
  has_author :: bool
  domain :: string
  published_date :: 'd
  scraped_date :: 'd
  word_count :: nat

definition normalize_article :: "'dt pylib \<Rightarrow> raw_article \<Rightarrow> (string, string) normalized" where
  "normalize_article lib article =
     \<lparr>title = clean_text (raw_title article),
      description = clean_text (raw_description article),
      url = raw_url article,
      source = raw_source article,
      published_at = normalize_datetime lib (raw_published_at article),
      author = clean_text (raw_author article),
      image_url = raw_image_url article,
      scraped_at = normalize_datetime lib (raw_scraped_at article),
      date_range = raw_date_range article,
      has_image = py_bool (raw_image_url article),
      has_author = py_bool (raw_author article),
      domain = extract_domain lib (raw_url article),
      published_date = extract_date_only lib (raw_published_at article),
      scraped_date = extract_date_only lib (raw_scraped_at article),
      word_count = count_words (raw_description article)\<rparr>"

definition normalize_data :: "'dt pylib \<Rightarrow> raw_article list \<Rightarrow> (string, string) normalized list" where
  "normalize_data lib articles = map (normalize_article lib) articles"

text \<open>
  \<open>df.drop_duplicates(subset=[key], keep='first')\<close>: the rows in order, a row dropped
  when an earlier row has the same key. pandas takes two missing values for the same
  key, as equality on \<open>None\<close> does here.
\<close>

fun drop_duplicates :: "('a \<Rightarrow> 'k) \<Rightarrow> 'k list \<Rightarrow> 'a list \<Rightarrow> 'a list" where
  "drop_duplicates key seen [] = []"
| "drop_duplicates key seen (r # rs) =
     (if key r \<in> set seen then drop_duplicates key seen rs
      else r # drop_duplicates key (key r # seen) rs)"

text \<open>
  Row \<open>i\<close> of the table after the two \<open>pd.to_datetime\<close> loops of
  \<open>create_dataframe\<close>; the other columns are as they were.
\<close>

definition typed_row ::
  "'dt pylib \<Rightarrow> (string, string) normalized list \<Rightarrow> nat \<Rightarrow> ('dt option, 'dt option) normalized" where
  "typed_row lib rows i =
     (let r = rows ! i
      in \<lparr>title = title r,
          description = description r,
          url = url r,
          source = source r,
          published_at = to_datetime lib (map published_at rows) i,
          author = author r,
          image_url = image_url r,
          scraped_at = to_datetime lib (map scraped_at rows) i,
          date_range = date_range r,
          has_image = has_image r,
          has_author = has_author r,
          domain = domain r,
          published_date = map_option (dt_date lib) (to_datetime lib (map published_date rows) i),
          scraped_date = map_option (dt_date lib) (to_datetime lib (map scraped_date rows) i),
          word_count = word_count r\<rparr>)"

definition typed_rows ::
  "'dt pylib \<Rightarrow> (string, string) normalized list \<Rightarrow> ('dt option, 'dt option) normalized list" where
  "typed_rows lib rows = map (typed_row lib rows) [0 ..< length rows]"

definition create_dataframe ::
  "'dt pylib \<Rightarrow> (string, string) normalized list \<Rightarrow> ('dt option, 'dt option) normalized list" where
  "create_dataframe lib normalized_data = drop_duplicates url [] (typed_rows lib normalized_data)"

text \<open>
  \<open>generate_summary_stats\<close>, the four counts. The entries \<open>date_range\<close>,
  \<open>top_sources\<close> and \<open>articles_by_date\<close> are left out. \<open>nunique\<close> does not count
  missing values.
\<close>

record summary =
  total_articles :: nat
  unique_sources :: nat
  articles_with_images :: nat
  articles_with_authors :: nat

definition generate_summary_stats :: "('t, 'd) normalized list \<Rightarrow> summary" where
  "generate_summary_stats df =
     \<lparr>total_articles = length df,
      unique_sources = length (remdups (filter (\<lambda>s. s \<noteq> None) (map source df))),
      articles_with_images = length (filter has_image df),
      articles_with_authors = length (filter has_author df)\<rparr>"

text \<open>
  What a stage prints, one constructor for each \<open>print\<close> with the values it shows
  (\<open>Error_loading\<close> without the text of the exception, \<open>Loaded\<close> with the path
  rather than its base name, \<open>Completed\<close> for the closing block of lines).
\<close>

datatype message =
    Starting_processing
  | Starting_sql_generation
  | Found_files nat
  | Loaded nat string
  | Error_loading string
  | No_articles_found
  | Normalizing nat
  | Processing nat
  | Removed_duplicates nat
  | Saved string
  | Completed

text \<open>
  A batch file as \<open>load_json_files\<close> meets it: it cannot be opened or parsed, it holds
  a list of articles, or it holds a single article (a dict, whose \<open>len\<close> is its nine
  keys). The directory is the list of the files that \<open>glob\<close> finds, with their paths.
\<close>

datatype batch_file = Unreadable | Batch "raw_article list" | Single raw_article

fun load_json_files :: "(string \<times> batch_file) list \<Rightarrow> raw_article list \<times> message list" where
  "load_json_files [] = ([], [])"
| "load_json_files ((file_path, f) # rest) =
     (case load_json_files rest of
        (articles, printed) \<Rightarrow>
          (case f of
             Unreadable \<Rightarrow> (articles, Error_loading file_path # printed)
           | Batch data \<Rightarrow> (data @ articles, Loaded (length data) file_path # printed)
           | Single data \<Rightarrow> (data # articles, Loaded 9 file_path # printed)))"

text \<open>
  The clock of the later stages: reading \<open>k\<close> formatted with \<open>'%Y%m%d_%H%M%S'\<close> and
  with \<open>'%Y-%m-%d %H:%M:%S'\<close>.
\<close>

record timer =
  file_stamp :: "nat \<Rightarrow> string"
  time_text :: "nat \<Rightarrow> string"

text \<open>
  What a stage leaves behind: the lines printed, the files written with their
  contents, and the value returned (\<open>None\<close> for a bare \<open>return\<close>). A CSV file is
  held as the table it renders, the statistics file as the statistics.
\<close>

datatype 'dt processed_file =
    Csv "('dt option, 'dt option) normalized list"
  | Stats summary

record ('f, 'r) effects =
  printed :: "message list"
  written :: "(string \<times> 'f) list"
  returned :: "'r option"

definition process_all ::
  "'dt pylib \<Rightarrow> timer \<Rightarrow> string \<Rightarrow> (string \<times> batch_file) list
     \<Rightarrow> ('dt processed_file, ('dt option, 'dt option) normalized list \<times> summary) effects" where
  "process_all lib tm processed_dir dir =
     (case load_json_files dir of
        (articles, loading) \<Rightarrow>
          if articles = [] then
            \<lparr>printed = [Starting_processing, Found_files (length dir)] @ loading @ [No_articles_found],
             written = [],
             returned = None\<rparr>
          else
            (let normalized_data = normalize_data lib articles;
                 df = create_dataframe lib normalized_data;
                 removed_count = length normalized_data - length df;
                 stats = generate_summary_stats df;
                 csv_file = os_path_join processed_dir
                              (''stock_news_processed_'' @ file_stamp tm 0 @ ''.csv'');
                 stats_file = os_path_join processed_dir
                                (''summary_stats_'' @ file_stamp tm 1 @ ''.json'')
             in \<lparr>printed = [Starting_processing, Found_files (length dir)] @ loading
                            @ [Normalizing (length articles)]
                            @ (if removed_count > 0 then [Removed_duplicates removed_count] else [])
                            @ [Saved csv_file, Saved stats_file, Completed],
                 written = [(csv_file, Csv df), (stats_file, Stats stats)],
                 returned = Some (df, stats)\<rparr>))"

section \<open>sql\_generator.py: the SQL emitter\<close>

text \<open>
  \<open>normalize_datetime\<close> and \<open>extract_domain\<close> of \<open>SQLGenerator\<close>: \<open>None\<close> for a
  missing or empty argument and in the bare \<open>except\<close>.
\<close>

definition sql_normalize_datetime :: "'dt pylib \<Rightarrow> string option \<Rightarrow> string option" where
  "sql_normalize_datetime lib dt_string =
     (if \<not> py_bool dt_string then None
      else case format_datetime lib (strftime_seconds lib) (the dt_string) of
             None \<Rightarrow> None
           | Some text \<Rightarrow> Some text)"

definition sql_extract_domain :: "'dt pylib \<Rightarrow> string option \<Rightarrow> string option" where
  "sql_extract_domain lib u =
     (if \<not> py_bool u then None
      else case netloc lib (the u) of None \<Rightarrow> None | Some d \<Rightarrow> Some d)"

definition sql_count_words :: "string option \<Rightarrow> nat" where
  "sql_count_words text = (if \<not> py_bool text then 0 else length (py_split (the text)))"

text \<open>The values of a transformed article: \<open>None\<close>, a string, a boolean, an integer.\<close>

datatype sqlval = SNone | SStr string | SBool bool | SInt int

definition of_optional :: "string option \<Rightarrow> sqlval" where
  "of_optional x = (case x of None \<Rightarrow> SNone | Some s \<Rightarrow> SStr s)"

text \<open>\<open>escape_sql_value\<close>: the tests in the order of the source.\<close>

fun escape_sql_value :: "sqlval \<Rightarrow> string" where
  "escape_sql_value SNone = ''NULL''"
| "escape_sql_value (SStr s) = [CHR 0x27] @ s @ [CHR 0x27]"
| "escape_sql_value (SBool b) = (if b then ''TRUE'' else ''FALSE'')"
| "escape_sql_value (SInt n) = str_int n"

text \<open>\<open>transform_article\<close>: the dict, as the list of its items.\<close>

definition transform_article :: "'dt pylib \<Rightarrow> raw_article \<Rightarrow> (string \<times> sqlval) list" where
  "transform_article lib article =
     [(''url'', of_optional (sql_clean_text (raw_url article))),
      (''title'', of_optional (sql_clean_text (raw_title article))),
      (''description'', of_optional (sql_clean_text (raw_description article))),
      (''source'', of_optional (sql_clean_text (raw_source article))),
      (''author'', of_optional (sql_clean_text (raw_author article))),
      (''published_at'', of_optional (sql_normalize_datetime lib (raw_published_at article))),
      (''scraped_at'', of_optional (sql_normalize_datetime lib (raw_scraped_at article))),
      (''image_url'', of_optional (sql_clean_text (raw_image_url article))),
      (''domain'', of_optional (sql_extract_domain lib (raw_url article))),
      (''word_count'', SInt (int (sql_count_words (raw_description article)))),
      (''has_image'', SBool (py_bool (raw_image_url article))),
      (''has_author'', SBool (py_bool (raw_author article)))]"

text \<open>\<open>transformed.get(col)\<close>.\<close>

definition column_value :: "(string \<times> sqlval) list \<Rightarrow> string \<Rightarrow> sqlval" where
  "column_value transformed col = (case map_of transformed col of None \<Rightarrow> SNone | Some v \<Rightarrow> v)"

definition table_name :: string where
  "table_name = ''stock_articles''"

definition columns :: "string list" where
  "columns =
     [''url'', ''title'', ''description'', ''source'', ''author'', ''published_at'',
      ''scraped_at'', ''image_url'', ''domain'', ''word_count'', ''has_image'', ''has_author'']"

definition generate_create_table_sql :: string where
  "generate_create_table_sql =
     CHR 0x0A # concat (map (\<lambda>line. line @ [CHR 0x0A])
       [''CREATE TABLE IF NOT EXISTS '' @ table_name @ '' ('',
        ''    id SERIAL PRIMARY KEY,'',
        ''    url TEXT UNIQUE NOT NULL,'',
        ''    title TEXT,'',
        ''    description TEXT,'',
        ''    source VARCHAR(255),'',
        ''    author VARCHAR(255),'',
        ''    published_at TIMESTAMP,'',
        ''    scraped_at TIMESTAMP DEFAULT CURRENT_TIMESTAMP,'',
        ''    image_url TEXT,'',
        ''    domain VARCHAR(255),'',
        ''    word_count INTEGER DEFAULT 0,'',
        ''    has_image BOOLEAN DEFAULT FALSE,'',
        ''    has_author BOOLEAN DEFAULT FALSE,'',
        ''    created_at TIMESTAMP DEFAULT CURRENT_TIMESTAMP,'',
        ''    updated_at TIMESTAMP DEFAULT CURRENT_TIMESTAMP'',
        '');'',
        '''',
        ''CREATE INDEX IF NOT EXISTS idx_stock_articles_url ON '' @ table_name @ ''(url);'',
        ''CREATE INDEX IF NOT EXISTS idx_stock_articles_source ON '' @ table_name @ ''(source);'',
        ''CREATE INDEX IF NOT EXISTS idx_stock_articles_published_at ON '' @ table_name
          @ ''(published_at);'',
        ''CREATE INDEX IF NOT EXISTS idx_stock_articles_domain ON '' @ table_name @ ''(domain);''])"

text \<open>One parenthesised row of values, as both generators build it.\<close>

definition row_values :: "'dt pylib \<Rightarrow> raw_article \<Rightarrow> string" where
  "row_values lib article =
     ''('' @ py_join '', ''
              (map (\<lambda>col. escape_sql_value (column_value (transform_article lib article) col))
                 columns) @ '')''"

definition generate_insert_sql :: "'dt pylib \<Rightarrow> raw_article list \<Rightarrow> string" where
  "generate_insert_sql lib articles =
     (if articles = [] then []
      else py_join [CHR 0x0A]
             [''INSERT INTO '' @ table_name @ '' ('' @ py_join '', '' columns @ '') VALUES'',
              py_join ('','' @ [CHR 0x0A]) (map (row_values lib) articles),
              ''ON CONFLICT (url) DO NOTHING;''])"

definition generate_upsert_sql :: "'dt pylib \<Rightarrow> raw_article list \<Rightarrow> string" where
  "generate_upsert_sql lib articles =
     (if articles = [] then []
      else
        (let update_columns = filter (\<lambda>col. col \<noteq> ''url'') columns;
             update_clause = py_join '', '' (map (\<lambda>col. col @ '' = EXCLUDED.'' @ col) update_columns)
         in py_join [CHR 0x0A]
              [''INSERT INTO '' @ table_name @ '' ('' @ py_join '', '' columns @ '') VALUES'',
               py_join ('','' @ [CHR 0x0A]) (map (row_values lib) articles),
               ''ON CONFLICT (url) DO UPDATE SET '' @ update_clause
                 @ '', updated_at = CURRENT_TIMESTAMP;'']))"

text \<open>
  \<open>generate_all_sql\<close>. The four files are written in this order; the value returned is
  the dict of their paths.
\<close>

definition generate_all_sql ::
  "'dt pylib \<Rightarrow> timer \<Rightarrow> string \<Rightarrow> (string \<times> batch_file) list
     \<Rightarrow> (string, (string \<times> string) list) effects" where
  "generate_all_sql lib tm output_dir dir =
     (case load_json_files dir of
        (articles, loading) \<Rightarrow>
          if articles = [] then
            \<lparr>printed = [Starting_sql_generation, Found_files (length dir)] @ loading @ [No_articles_found],
             written = [],
             returned = None\<rparr>
          else
            (let timestamp = file_stamp tm 0;
                 create_table_sql = generate_create_table_sql;
                 create_table_file = os_path_join output_dir (''create_table_'' @ timestamp @ ''.sql'');
                 insert_sql = generate_insert_sql lib articles;
                 insert_file = os_path_join output_dir (''insert_articles_'' @ timestamp @ ''.sql'');
                 upsert_sql = generate_upsert_sql lib articles;
                 upsert_file = os_path_join output_dir (''upsert_articles_'' @ timestamp @ ''.sql'');
                 all_sql = ''-- Complete SQL script for stock articles'' @ [CHR 0x0A]
                           @ ''-- Generated on '' @ time_text tm 1 @ [CHR 0x0A, CHR 0x0A]
                           @ create_table_sql @ [CHR 0x0A, CHR 0x0A]
                           @ ''-- Insert new articles only (skip duplicates)'' @ [CHR 0x0A]
                           @ insert_sql @ [CHR 0x0A];
                 combined_file = os_path_join output_dir (''complete_sql_'' @ timestamp @ ''.sql'')
             in \<lparr>printed = [Starting_sql_generation, Found_files (length dir)] @ loading
                            @ [Processing (length articles),
                               Saved create_table_file, Saved insert_file, Saved upsert_file,
                               Saved combined_file, Completed],
                 written = [(create_table_file, create_table_sql), (insert_file, insert_sql),
                            (upsert_file, upsert_sql), (combined_file, all_sql)],
                 returned = Some [(''create_table'', create_table_file), (''insert'', insert_file),
                                  (''upsert'', upsert_file), (''combined'', combined_file)]\<rparr>))"

section \<open>Notions used in the statements\<close>

text \<open>
  A word as \<open>str.split()\<close> produces it: not empty and free of white space.
\<close>

definition is_word :: "string \<Rightarrow> bool" where
  "is_word w = (w \<noteq> [] \<and> (\<forall>c \<in> set w. \<not> py_isspace c))"

text \<open>
  \<open>a.get('url', '')\<close> of an article, the keys of the URLs of a list of articles, and
  what makes an article new with respect to a set of URLs: its URL is true as a
  condition (not empty), hashable and not in the set.
\<close>

definition url_of :: "json \<Rightarrow> json" where
  "url_of a = (case a of JObj kvs \<Rightarrow> dict_get kvs ''url'' (JStr []) | _ \<Rightarrow> JStr [])"

definition url_keys :: "json list \<Rightarrow> pykey set" where
  "url_keys as = {k. \<exists>a \<in> set as. hash_key (url_of a) = Some k}"

definition fresh :: "pykey set \<Rightarrow> json \<Rightarrow> bool" where
  "fresh urls a = (truthy (url_of a) \<and> (\<exists>k. hash_key (url_of a) = Some k \<and> k \<notin> urls))"

section \<open>A sample run\<close>

text \<open>
  A response with two articles, a response that reports an error, an environment that
  answers every request with a given body, and a crawler that has already seen the
  first of the two URLs. They are the concrete inputs of the examples below.
\<close>

definition sample_body :: json where
  "sample_body =
     JObj [(''status'', JStr ''ok''),
           (''totalResults'', JInt 2),
           (''articles'',
            JArr [JObj [(''title'', JStr ''One''), (''url'', JStr ''https://a.com/1'')],
                  JObj [(''title'', JStr ''Two''), (''url'', JStr ''https://a.com/2'')]])]"

definition failed_body :: json where
  "failed_body = JObj [(''status'', JStr ''error''), (''code'', JStr ''rateLimited'')]"

definition sample_order :: "pykey set \<Rightarrow> pykey list" where
  "sample_order S = filter (\<lambda>k. k \<in> S) [KStr ''https://a.com/2'', KStr ''https://a.com/1'']"

definition sample_env :: "json \<Rightarrow> env" where
  "sample_env body =
     \<lparr>http = (\<lambda>n ps. Body body),
      date_minus = (\<lambda>t d. if d = 0 then ''2024-05-08'' else ''2024-05-01''),
      isoformat = (\<lambda>t. ''2024-05-08T10:00:00''),
      stamp = (\<lambda>t. ''20240508_100000''),
      list_of_set = sample_order\<rparr>"

definition sample_config :: config where
  "sample_config =
     \<lparr>query = ''stocks'', language = ''en'', api_key = ''key'', data_path = None,
      batch_size = None, days_back = Some 1, max_total_articles = Some 1\<rparr>"

definition sample_crawler :: crawler where
  "sample_crawler =
     \<lparr>config = sample_config, checkpoint_file = ''data/checkpoint.json'',
      collected_urls = {KStr ''https://a.com/1''}\<rparr>"

definition sample_world :: world where
  "sample_world = \<lparr>files = Map.empty, ticks = 0, requests = 0\<rparr>"

definition article_two :: json where
  "article_two =
     JObj [(''title'', JStr ''Two''), (''description'', JStr []),
           (''url'', JStr ''https://a.com/2''), (''source'', JStr []),
           (''published_at'', JStr []), (''author'', JStr []), (''image_url'', JStr []),
           (''scraped_at'', JStr ''2024-05-08T10:00:00''),
           (''date_range'', JStr ''2024-05-01_to_2024-05-08'')]"

definition two_urls :: "pykey set" where
  "two_urls = {KStr ''https://a.com/1'', KStr ''https://a.com/2''}"

section \<open>A sample library\<close>

text \<open>
  A small instance of the library functions, to run the examples on. It accepts the
  canonical forms only: \<open>dddd-dd-dd dd:dd:dd\<close> for \<open>strptime\<close>, the same with \<open>T\<close> in
  the middle and an optional \<open>+00:00\<close> at the end for \<open>fromisoformat\<close>, with months
  1..12, days 1..31, hours below 24, minutes and seconds below 60; for \<open>netloc\<close> it
  takes what lies between the \<open>//\<close> after the scheme and the next \<open>/\<close>, \<open>?\<close> or
  \<open>#\<close>. Python accepts more than this (one-digit fields, for instance), and no
  theorem depends on the instance.
\<close>

type_synonym sample_dt = "nat \<times> nat \<times> nat \<times> nat \<times> nat \<times> nat"

definition digit_of :: "char \<Rightarrow> nat option" where
  "digit_of c =
     (let n = (of_char c :: nat) in if 48 \<le> n \<and> n \<le> 57 then Some (n - 48) else None)"

definition number_of :: "string \<Rightarrow> nat option" where
  "number_of s =
     (if s \<noteq> [] \<and> list_all (\<lambda>c. digit_of c \<noteq> None) s
      then Some (foldl (\<lambda>a c. 10 * a + the (digit_of c)) 0 s)
      else None)"

definition sample_fields :: "char \<Rightarrow> string \<Rightarrow> sample_dt option" where
  "sample_fields sep s =
     (if length s = 19 \<and> s ! 4 = CHR ''-'' \<and> s ! 7 = CHR ''-'' \<and> s ! 10 = sep
           \<and> s ! 13 = CHR '':'' \<and> s ! 16 = CHR '':''
      then
        (case (number_of (take 4 s), number_of (take 2 (drop 5 s)),
               number_of (take 2 (drop 8 s)), number_of (take 2 (drop 11 s)),
               number_of (take 2 (drop 14 s)), number_of (take 2 (drop 17 s))) of
           (Some y, Some mo, Some d, Some h, Some mi, Some sec) \<Rightarrow>
             if 1 \<le> y \<and> 1 \<le> mo \<and> mo \<le> 12 \<and> 1 \<le> d \<and> d \<le> 31 \<and> h < 24 \<and> mi < 60 \<and> sec < 60
             then Some (y, mo, d, h, mi, sec)
             else None
         | _ \<Rightarrow> None)
      else None)"

definition sample_fromisoformat :: "string \<Rightarrow> sample_dt option" where
  "sample_fromisoformat s =
     (if drop 19 s = [] \<or> drop 19 s = ''+00:00'' then sample_fields (CHR ''T'') (take 19 s)
      else None)"

definition pad :: "nat \<Rightarrow> nat \<Rightarrow> string" where
  "pad width n = replicate (width - length (str_nat n)) (CHR ''0'') @ str_nat n"

definition sample_strftime_day :: "sample_dt \<Rightarrow> string option" where
  "sample_strftime_day dt =
     (case dt of (y, mo, d, h, mi, sec) \<Rightarrow> Some (pad 4 y @ ''-'' @ pad 2 mo @ ''-'' @ pad 2 d))"

definition sample_strftime_seconds :: "sample_dt \<Rightarrow> string option" where
  "sample_strftime_seconds dt =
     (case dt of (y, mo, d, h, mi, sec) \<Rightarrow>
        Some (pad 4 y @ ''-'' @ pad 2 mo @ ''-'' @ pad 2 d @ '' ''
              @ pad 2 h @ '':'' @ pad 2 mi @ '':'' @ pad 2 sec))"

definition sample_netloc :: "string \<Rightarrow> string option" where
  "sample_netloc u =
     (let rest = (if CHR '':'' \<in> set u then tl (dropWhile (\<lambda>c. c \<noteq> CHR '':'') u) else u)
      in if take 2 rest = ''//''
         then Some (takeWhile (\<lambda>c. c \<noteq> CHR ''/'' \<and> c \<noteq> CHR ''?'' \<and> c \<noteq> CHR ''#'') (drop 2 rest))
         else Some [])"

definition sample_to_datetime :: "string list \<Rightarrow> nat \<Rightarrow> sample_dt option" where
  "sample_to_datetime col i =
     (if i < length col
      then (if length (col ! i) = 10 then sample_fields (CHR '' '') (col ! i @ '' 00:00:00'')
            else sample_fields (CHR '' '') (col ! i))
      else None)"

definition sample_dt_date :: "sample_dt \<Rightarrow> sample_dt" where
  "sample_dt_date dt = (case dt of (y, mo, d, h, mi, sec) \<Rightarrow> (y, mo, d, 0, 0, 0))"

definition sample_lib :: "sample_dt pylib" where
  "sample_lib =
     \<lparr>fromisoformat = sample_fromisoformat,
      strptime = sample_fields (CHR '' ''),
      strftime_seconds = sample_strftime_seconds,
      strftime_day = sample_strftime_day,
      netloc = sample_netloc,
      to_datetime = sample_to_datetime,
      dt_date = sample_dt_date\<rparr>"

definition sample_timer :: timer where
  "sample_timer =
     \<lparr>file_stamp = (\<lambda>k. ''20240508_100000''), time_text = (\<lambda>k. ''2024-05-08 10:00:00'')\<rparr>"

section \<open>Sample articles\<close>

text \<open>A normalized record with a given title; all such records share one URL.\<close>

definition record_titled :: "string \<Rightarrow> (string, string) normalized" where
  "record_titled t =
     \<lparr>title = t, description = [], url = Some ''https://x.com/a'', source = None,
      published_at = ''2024-05-08 10:00:00'', author = [], image_url = None,
      scraped_at = ''2024-05-09 11:30:00'', date_range = None, has_image = False,
      has_author = False, domain = ''x.com'', published_date = ''2024-05-08'',
      scraped_date = ''2024-05-09'', word_count = 0\<rparr>"

text \<open>An article whose title and whose host name contain a single quote.\<close>

definition obrien_article :: raw_article where
  "obrien_article =
     \<lparr>raw_title = Some (''O'' @ CHR 0x27 # ''Brien'' @ CHR 0x27 # ''s report''),
      raw_description = Some ''a b  c'',
      raw_url = Some (''https://o'' @ CHR 0x27 # ''brien.com/a''),
      raw_source = Some [],
      raw_published_at = Some ''2024-05-08T10:00:00Z'',
      raw_author = None,
      raw_image_url = Some ''https://img.example/1.png'',
      raw_scraped_at = Some ''not a date'',
      raw_date_range = None\<rparr>"

section \<open>Facts about text cleaning\<close>

lemma py_isspace_space: "py_isspace (CHR '' '')"
  by (simp add: py_isspace_def)

lemma is_word_takeWhile:
  "\<not> py_isspace c \<Longrightarrow> is_word (c # takeWhile (\<lambda>x. \<not> py_isspace x) cs)"
  unfolding is_word_def by (auto dest: set_takeWhileD)

lemma py_split_words: "w \<in> set (py_split s) \<Longrightarrow> is_word w"
proof (induction s arbitrary: w rule: py_split.induct)
  case 1
  then show ?case by simp
next
  case (2 c cs)
  show ?case
  proof (cases "py_isspace c")
    case True
    with 2 show ?thesis by simp
  next
    case False
    from "2.prems" False
    have "w = c # takeWhile (\<lambda>x. \<not> py_isspace x) cs
            \<or> w \<in> set (py_split (dropWhile (\<lambda>x. \<not> py_isspace x) cs))"
      by simp
    then show ?thesis
      using "2.IH"(2)[OF False] is_word_takeWhile[OF False] by blast
  qed
qed

lemma py_split_word_app:
  assumes w: "is_word w"
  shows "py_split (w @ CHR '' '' # s) = w # py_split s"
proof -
  obtain c cs where wc: "w = c # cs" using w by (cases w) (auto simp: is_word_def)
  have nc: "\<not> py_isspace c" and ns: "\<forall>x \<in> set cs. \<not> py_isspace x"
    using w wc by (auto simp: is_word_def)
  have t: "takeWhile (\<lambda>x. \<not> py_isspace x) (cs @ CHR '' '' # s) = cs"
    using ns by (simp add: py_isspace_space)
  have d: "dropWhile (\<lambda>x. \<not> py_isspace x) (cs @ CHR '' '' # s) = CHR '' '' # s"
    using ns by (simp add: py_isspace_space)
  have "py_split ((c # cs) @ CHR '' '' # s) = (c # cs) # py_split (CHR '' '' # s)"
    using nc by (simp add: t d)
  then show ?thesis using wc by (simp add: py_isspace_space)
qed

lemma py_split_word:
  assumes w: "is_word w"
  shows "py_split w = [w]"
proof -
  obtain c cs where wc: "w = c # cs" using w by (cases w) (auto simp: is_word_def)
  have nc: "\<not> py_isspace c" and ns: "\<forall>x \<in> set cs. \<not> py_isspace x"
    using w wc by (auto simp: is_word_def)
  have t: "takeWhile (\<lambda>x. \<not> py_isspace x) cs = cs" using ns by simp
  have d: "dropWhile (\<lambda>x. \<not> py_isspace x) cs = []" using ns by simp
  show ?thesis using nc wc by (simp add: t d)
qed

lemma py_split_join:
  "\<forall>w \<in> set ws. is_word w \<Longrightarrow> py_split (py_join '' '' ws) = ws"
proof (induction ws)
  case Nil
  then show ?case by simp
next
  case (Cons w ws)
  show ?case
  proof (cases ws)
    case Nil
    with Cons.prems show ?thesis by (simp add: py_split_word)
  next
    case (Cons v vs)
    have "py_join '' '' (w # ws) = w @ CHR '' '' # py_join '' '' ws"
      using Cons by simp
    moreover have "is_word w" using Cons.prems by simp
    moreover have "py_split (py_join '' '' ws) = ws" using Cons.IH Cons.prems by simp
    ultimately show ?thesis by (simp add: py_split_word_app)
  qed
qed

lemma py_strip_id:
  assumes "s \<noteq> []" "\<not> py_isspace (hd s)" "\<not> py_isspace (last s)"
  shows "py_strip s = s"
proof -
  have 1: "dropWhile py_isspace s = s" using assms by (cases s) auto
  have "rev s \<noteq> []" "\<not> py_isspace (hd (rev s))" using assms by (simp_all add: hd_rev)
  then have 2: "dropWhile py_isspace (rev s) = rev s" by (cases "rev s") auto
  show ?thesis by (simp add: py_strip_def 1 2)
qed

lemma py_join_ends:
  "ws \<noteq> [] \<Longrightarrow> \<forall>w \<in> set ws. is_word w \<Longrightarrow>
     py_join '' '' ws \<noteq> [] \<and> \<not> py_isspace (hd (py_join '' '' ws))
       \<and> \<not> py_isspace (last (py_join '' '' ws))"
proof (induction ws)
  case Nil
  then show ?case by simp
next
  case (Cons w ws)
  have w: "w \<noteq> []" "\<not> py_isspace (hd w)" "\<not> py_isspace (last w)"
    using Cons.prems by (auto simp: is_word_def)
  show ?case
  proof (cases ws)
    case Nil
    then show ?thesis using w by simp
  next
    case (Cons v vs)
    have j: "py_join '' '' (w # ws) = w @ CHR '' '' # py_join '' '' ws"
      using Cons by simp
    have ih: "py_join '' '' ws \<noteq> []" "\<not> py_isspace (last (py_join '' '' ws))"
      using Cons.IH Cons.prems Cons by auto
    show ?thesis unfolding j using w ih by simp
  qed
qed

lemma clean_text_twice: "clean_text (Some (clean_text t)) = clean_text t"
proof (cases "clean_text t = []")
  case True
  then show ?thesis by (simp add: clean_text_def)
next
  case False
  then obtain s where t: "t = Some s" and s: "s \<noteq> []" "py_strip s \<noteq> []"
    by (auto simp: clean_text_def split: option.splits if_splits)
  define ws where "ws = py_split (py_strip s)"
  define r where "r = py_join '' '' ws"
  have r: "clean_text t = r" using t s by (simp add: clean_text_def ws_def r_def)
  have w: "\<forall>w \<in> set ws. is_word w" using py_split_words by (auto simp: ws_def)
  have ne: "ws \<noteq> []" using False r r_def by auto
  have e: "r \<noteq> []" "\<not> py_isspace (hd r)" "\<not> py_isspace (last r)"
    using py_join_ends[OF ne w] by (simp_all add: r_def)
  have 1: "py_strip r = r" using py_strip_id[OF e] .
  have 2: "py_split r = ws" using py_split_join[OF w] by (simp add: r_def)
  have "clean_text (Some r) = py_join '' '' (py_split (py_strip r))"
    using e(1) 1 by (simp add: clean_text_def)
  then show ?thesis using r 1 2 r_def by simp
qed

lemma sql_clean_text_once:
  "sql_clean_text (Some (''O'' @ CHR 0x27 # ''Brien''))
     = Some (''O'' @ CHR 0x27 # CHR 0x27 # ''Brien'')"
  by (simp add: sql_clean_text_def py_strip_def py_isspace_def py_replace_def)

lemma sql_clean_text_again:
  "sql_clean_text (sql_clean_text (Some (''O'' @ CHR 0x27 # ''Brien'')))
     = Some (''O'' @ CHR 0x27 # CHR 0x27 # CHR 0x27 # CHR 0x27 # ''Brien'')"
  by (simp add: sql_clean_text_def py_strip_def py_isspace_def py_replace_def)

text \<open>
  Claim C10. The text cleaning of the Normalizer is idempotent: cleaning a cleaned
  text, \<open>None\<close> included, changes nothing. The text cleaning of the SQL emitter is not:
  applied to \<open>O'Brien\<close> it gives \<open>O''Brien\<close>, and applied again it doubles the two
  quotes once more.
\<close>

theorem clean_text_idempotent:
  "clean_text (Some (clean_text t)) = clean_text t
     \<and> sql_clean_text (sql_clean_text (Some (''O'' @ CHR 0x27 # ''Brien'')))
          \<noteq> sql_clean_text (Some (''O'' @ CHR 0x27 # ''Brien''))"
  using sql_clean_text_once sql_clean_text_again by (simp add: clean_text_twice)

section \<open>Facts about the crawler\<close>

lemma url_of_new_article: "url_of (new_article kvs u name sc sp) = u"
  by (simp add: url_of_def new_article_def dict_get_def)

lemma url_keys_Cons:
  "hash_key (url_of a) = Some k \<Longrightarrow> url_keys (a # as) = insert k (url_keys as)"
  by (auto simp: url_keys_def)

lemma url_keys_Nil: "url_keys [] = {}"
  by (simp add: url_keys_def)

lemma collect_inv:
  "collect e sp xs arts urls t = (r, arts', urls', t') \<Longrightarrow>
     \<exists>new. arts' = arts @ new \<and> urls' = urls \<union> url_keys new
            \<and> (\<forall>a \<in> set new. fresh urls a)
            \<and> distinct (map (\<lambda>a. hash_key (url_of a)) new)"
proof (induction xs arbitrary: arts urls t)
  case Nil
  then show ?case by (simp add: url_keys_Nil)
next
  case (Cons x xs)
  show ?case
  proof (cases x)
    case (JObj kvs)
    define u where "u = dict_get kvs ''url'' (JStr [])"
    show ?thesis
    proof (cases "truthy u")
      case False
      with Cons.prems JObj have "collect e sp xs arts urls t = (r, arts', urls', t')"
        by (simp add: u_def)
      from Cons.IH[OF this] show ?thesis .
    next
      case True
      show ?thesis
      proof (cases "hash_key u")
        case None
        with Cons.prems JObj True show ?thesis by (simp add: u_def url_keys_Nil)
      next
        case (Some k)
        show ?thesis
        proof (cases "k \<in> urls")
          case True
          with Cons.prems JObj \<open>truthy u\<close> Some
          have "collect e sp xs arts urls t = (r, arts', urls', t')"
            by (simp add: u_def)
          from Cons.IH[OF this] show ?thesis .
        next
          case False
          show ?thesis
          proof (cases "py_get (dict_get kvs ''source'' (JObj [])) ''name'' (JStr [])")
            case (Inl err)
            with Cons.prems JObj \<open>truthy u\<close> Some False show ?thesis
              by (simp add: u_def url_keys_Nil)
          next
            case (Inr name)
            define n where "n = new_article kvs u name (isoformat e t) sp"
            have un: "url_of n = u" by (simp add: n_def url_of_new_article)
            from Cons.prems JObj \<open>truthy u\<close> Some False Inr
            have "collect e sp xs (arts @ [n]) (insert k urls) (Suc t) = (r, arts', urls', t')"
              by (simp add: u_def n_def)
            from Cons.IH[OF this] obtain new where
              new: "arts' = (arts @ [n]) @ new" "urls' = insert k urls \<union> url_keys new"
                   "\<forall>a \<in> set new. fresh (insert k urls) a"
                   "distinct (map (\<lambda>a. hash_key (url_of a)) new)"
              by blast
            have 1: "arts' = arts @ (n # new)" using new(1) by simp
            have 2: "urls' = urls \<union> url_keys (n # new)"
              using new(2) url_keys_Cons[of n k new] un Some by auto
            have 3: "\<forall>a \<in> set (n # new). fresh urls a"
              using new(3) un Some False \<open>truthy u\<close> by (auto simp: fresh_def)
            have "hash_key (url_of n) \<notin> set (map (\<lambda>a. hash_key (url_of a)) new)"
              using new(3) un Some by (auto simp: fresh_def)
            then have 4: "distinct (map (\<lambda>a. hash_key (url_of a)) (n # new))"
              using new(4) by simp
            from 1 2 3 4 show ?thesis by blast
          qed
        qed
      qed
    qed
  qed (use Cons.prems in \<open>simp_all add: url_keys_Nil\<close>)
qed

lemma handle_response_inv:
  assumes "handle_response e sp out urls t = (res, urls', t')"
  shows "urls \<subseteq> urls'"
    and "res = Inr (arts, tot) \<Longrightarrow>
           urls' = urls \<union> url_keys arts \<and> (\<forall>a \<in> set arts. fresh urls a)
             \<and> distinct (map (\<lambda>a. hash_key (url_of a)) arts)"
proof -
  show "urls \<subseteq> urls'"
    using assms
    by (auto simp: handle_response_def
             split: http_outcome.splits sum.splits if_splits option.splits prod.splits
             dest!: collect_inv)
  assume "res = Inr (arts, tot)"
  with assms obtain items where "collect e sp items [] urls t = (None, arts, urls', t')"
    by (auto simp: handle_response_def
             split: http_outcome.splits sum.splits if_splits option.splits prod.splits)
  from collect_inv[OF this]
  show "urls' = urls \<union> url_keys arts \<and> (\<forall>a \<in> set arts. fresh urls a)
          \<and> distinct (map (\<lambda>a. hash_key (url_of a)) arts)"
    by simp
qed

lemma try_fetch_inv:
  assumes "try_fetch e page off c w = (res, c', w')"
  shows "collected_urls c \<subseteq> collected_urls c'"
    and "res = Inr (arts, tot) \<Longrightarrow>
           collected_urls c' = collected_urls c \<union> url_keys arts
             \<and> (\<forall>a \<in> set arts. fresh (collected_urls c) a)
             \<and> distinct (map (\<lambda>a. hash_key (url_of a)) arts)"
proof -
  obtain urls t where
    h: "handle_response e
          (p_from (request_params e page off c w) @ ''_to_'' @ p_to (request_params e page off c w))
          (http e (requests w) (request_params e page off c w))
          (collected_urls c) (ticks w + 2) = (res, urls, t)"
    and c': "c' = c\<lparr>collected_urls := urls\<rparr>"
    using assms by (auto simp: try_fetch_def Let_def split: prod.splits)
  show "collected_urls c \<subseteq> collected_urls c'"
    using handle_response_inv(1)[OF h] c' by simp
  assume "res = Inr (arts, tot)"
  from handle_response_inv(2)[OF h this] c'
  show "collected_urls c' = collected_urls c \<union> url_keys arts
          \<and> (\<forall>a \<in> set arts. fresh (collected_urls c) a)
          \<and> distinct (map (\<lambda>a. hash_key (url_of a)) arts)"
    by simp
qed

lemma get_articles_batch_cases:
  obtains (failed) err c' w' where "try_fetch e page off c w = (Inl err, c', w')"
      "get_articles_batch e page off c w = (([], JInt 0), c', w')"
  | (returned) arts tot c' w' where "try_fetch e page off c w = (Inr (arts, tot), c', w')"
      "get_articles_batch e page off c w = ((arts, tot), c', w')"
proof (cases "try_fetch e page off c w")
  case (fields res c' w')
  show ?thesis
  proof (cases res)
    case (Inl err)
    with fields show ?thesis by (intro failed[of err c' w']) (simp_all add: get_articles_batch_def)
  next
    case (Inr r)
    obtain arts tot where "r = (arts, tot)" by (cases r)
    with Inr fields show ?thesis
      by (intro returned[of arts tot c' w']) (simp_all add: get_articles_batch_def)
  qed
qed

lemma get_articles_batch_mono:
  "get_articles_batch e page off c w = (r, c', w') \<Longrightarrow> collected_urls c \<subseteq> collected_urls c'"
  by (cases rule: get_articles_batch_cases[of e page off c w])
     (use try_fetch_inv(1) in \<open>auto\<close>)

lemma get_articles_batch_config:
  "get_articles_batch e page off c w = (r, c', w') \<Longrightarrow> config c' = config c"
  by (auto simp: get_articles_batch_def try_fetch_def Let_def split: prod.splits sum.splits)

lemma get_articles_batch_fresh:
  assumes "get_articles_batch e page off c w = ((arts, tot), c', w')"
  shows "\<forall>a \<in> set arts. fresh (collected_urls c) a"
proof (cases rule: get_articles_batch_cases[of e page off c w])
  case (failed err c' w')
  with assms show ?thesis by simp
next
  case (returned arts2 tot2 c2 w2)
  with assms have "arts2 = arts" by simp
  with try_fetch_inv(2)[OF returned(1) refl] show ?thesis by simp
qed

lemma keep_batch_urls: "collected_urls (self (keep_batch e arts s)) = collected_urls (self s)"
  by (simp add: keep_batch_def save_json_def save_checkpoint_def Let_def split: prod.splits)

lemma try_strategies_mono:
  "collected_urls (self s) \<subseteq> collected_urls (self (try_strategies e m strategies s))"
proof (induction strategies arbitrary: s)
  case Nil
  then show ?case by simp
next
  case (Cons strategy rest)
  show ?case
  proof (cases "int (length (all_articles s)) \<ge> m")
    case True
    then show ?thesis by simp
  next
    case False
    define c1 where "c1 = (self s)\<lparr>config := (config (self s))\<lparr>query := strategy\<rparr>\<rparr>"
    obtain arts tot c2 w2 where
      g: "get_articles_batch e 1 0 c1 (outside s) = ((arts, tot), c2, w2)"
      by (metis prod.exhaust)
    define s2 where "s2 = s\<lparr>self := c2, outside := w2\<rparr>"
    define s3 where "s3 = (if arts \<noteq> [] then keep_batch e arts s2 else s2)"
    have step: "try_strategies e m (strategy # rest) s = try_strategies e m rest s3"
      using False g by (simp add: c1_def s2_def s3_def)
    have "collected_urls (self s) = collected_urls c1" by (simp add: c1_def)
    also have "\<dots> \<subseteq> collected_urls c2" using get_articles_batch_mono[OF g] .
    also have "\<dots> = collected_urls (self s3)"
      by (simp add: s3_def s2_def keep_batch_urls)
    also have "\<dots> \<subseteq> collected_urls (self (try_strategies e m rest s3))"
      using Cons.IH .
    finally show ?thesis using step by simp
  qed
qed

lemma fetch_older_mono:
  "collected_urls (self s) \<subseteq> collected_urls (self (fetch_older e m d off s))"
proof (induction e m d off s rule: fetch_older.induct)
  case (1 e m d off s)
  show ?case
  proof (cases "int (length (all_articles s)) < m \<and> off \<le> d")
    case False
    then have "fetch_older e m d off s = s"
      using False by (subst fetch_older.simps) auto
    then show ?thesis by simp
  next
    case True
    obtain arts tot c2 w2 where
      g: "get_articles_batch e 1 off (self s) (outside s) = ((arts, tot), c2, w2)"
      by (metis prod.exhaust)
    define s2 where "s2 = s\<lparr>self := c2, outside := w2\<rparr>"
    define s3 where "s3 = (if arts = [] then s2 else keep_batch e arts s2)"
    have step: "fetch_older e m d off s = fetch_older e m d (off + 1) s3"
      using True g by (subst fetch_older.simps) (auto simp: s2_def s3_def)
    have ih: "collected_urls (self s3) \<subseteq> collected_urls (self (fetch_older e m d (off + 1) s3))"
    proof (cases "arts = []")
      case True
      with "1.IH"(1)[OF \<open>int (length (all_articles s)) < m \<and> off \<le> d\<close> g[symmetric] refl refl True]
      show ?thesis by (simp add: s3_def s2_def)
    next
      case False
      with "1.IH"(2)[OF \<open>int (length (all_articles s)) < m \<and> off \<le> d\<close> g[symmetric] refl refl False]
      show ?thesis by (simp add: s3_def s2_def)
    qed
    have "collected_urls (self s) \<subseteq> collected_urls c2" using get_articles_batch_mono[OF g] .
    also have "\<dots> = collected_urls (self s3)" by (simp add: s3_def s2_def keep_batch_urls)
    finally show ?thesis using ih step by auto
  qed
qed

lemma sample_try_fetch:
  "try_fetch (sample_env sample_body) 1 0 sample_crawler sample_world
     = (Inr ([article_two], JInt 2),
        sample_crawler\<lparr>collected_urls := {KStr ''https://a.com/2'', KStr ''https://a.com/1''}\<rparr>,
        sample_world\<lparr>ticks := 3, requests := 1\<rparr>)"
  by (simp add: try_fetch_def request_params_def handle_response_def sample_env_def
      sample_body_def sample_crawler_def sample_config_def sample_world_def
      py_item_def py_get_def py_iter_def dict_get_def new_article_def article_two_def
      cfg_days_back_def cfg_batch_size_def Let_def)

lemma run_mono: "collected_urls c \<subseteq> collected_urls (fst (snd (run e c w)))"
proof -
  define s0 where "s0 = \<lparr>all_articles = [], batch_num = 1, self = c, outside = w\<rparr>"
  obtain arts tot c1 w1 where g: "get_articles_batch e 1 0 c w = ((arts, tot), c1, w1)"
    by (metis prod.exhaust)
  define s1 where
    "s1 = (if arts \<noteq> [] then keep_batch e arts (s0\<lparr>self := c1, outside := w1\<rparr>)
           else s0\<lparr>self := c1, outside := w1\<rparr>)"
  define s2 where "s2 = try_strategies e (cfg_max_total (config c)) search_strategies s1"
  define s3 where
    "s3 = s2\<lparr>self := (self s2)\<lparr>config := (config (self s2))\<lparr>query := query (config (self s1))\<rparr>\<rparr>\<rparr>"
  define s4 where
    "s4 = fetch_older e (cfg_max_total (config c)) (cfg_days_back (config c)) 1 s3"
  have r: "run e c w = (all_articles s4, self s4, outside s4)"
    using g by (simp add: run_def Let_def s0_def s1_def s2_def s3_def s4_def)
  have "collected_urls c \<subseteq> collected_urls c1" using get_articles_batch_mono[OF g] .
  also have "\<dots> = collected_urls (self s1)" by (simp add: s1_def keep_batch_urls)
  also have "\<dots> \<subseteq> collected_urls (self s2)" unfolding s2_def by (rule try_strategies_mono)
  also have "\<dots> = collected_urls (self s3)" by (simp add: s3_def)
  also have "\<dots> \<subseteq> collected_urls (self s4)" unfolding s4_def by (rule fetch_older_mono)
  finally show ?thesis using r by simp
qed

lemma get_articles_batch_returned:
  "try_fetch e page off c w = (Inr (arts, tot), c', w') \<Longrightarrow>
     get_articles_batch e page off c w = ((arts, tot), c', w')"
  by (simp add: get_articles_batch_def)

lemma get_articles_batch_failed:
  "fst (try_fetch e page off c w) = Inl err \<Longrightarrow>
     fst (get_articles_batch e page off c w) = ([], JInt 0)"
  by (cases "try_fetch e page off c w") (auto simp: get_articles_batch_def)

lemma handle_response_failures:
  "fst (handle_response e sp TransportFailure urls t) = Inl RequestException"
  "fst (handle_response e sp BadStatus urls t) = Inl RequestException"
  "fst (handle_response e sp NotJson urls t) = Inl JSONDecodeError"
  by (simp_all add: handle_response_def)

lemma handle_response_status:
  "py_item data ''status'' \<noteq> Inr (JStr ''ok'') \<Longrightarrow>
     \<exists>err. fst (handle_response e sp (Body data) urls t) = Inl err"
  by (cases "py_item data ''status''") (auto simp: handle_response_def)

lemma handle_response_articles:
  "py_item data ''articles'' = Inl err \<Longrightarrow>
     \<exists>err. fst (handle_response e sp (Body data) urls t) = Inl err"
  by (cases "py_item data ''status''")
     (auto simp: handle_response_def py_item_def py_get_def split: json.splits option.splits)

lemma try_fetch_handle:
  "fst (try_fetch e page off c w)
     = fst (handle_response e
              (p_from (request_params e page off c w) @ ''_to_'' @ p_to (request_params e page off c w))
              (http e (requests w) (request_params e page off c w))
              (collected_urls c) (ticks w + 2))"
  by (simp add: try_fetch_def Let_def split: prod.splits)

text \<open>
  Claim C2. Whatever the response and whatever \<open>collected_urls\<close> holds before the
  call, every article that \<open>get_articles_batch\<close> returns has a URL that is not empty and
  that was not in \<open>collected_urls\<close> before the call.
\<close>

theorem get_articles_batch_only_new:
  "\<forall>a \<in> set (fst (fst (get_articles_batch e page off c w))).
      truthy (url_of a) \<and> url_of a \<noteq> JStr []
      \<and> (\<exists>k. hash_key (url_of a) = Some k \<and> k \<notin> collected_urls c)"
proof -
  obtain arts tot c' w' where g: "get_articles_batch e page off c w = ((arts, tot), c', w')"
    by (metis prod.exhaust)
  from get_articles_batch_fresh[OF g] show ?thesis
    using g by (auto simp: fresh_def)
qed

lemma sample_get_articles_batch:
  "fst (fst (get_articles_batch (sample_env sample_body) 1 0 sample_crawler sample_world))
     = [article_two]"
  by (simp add: get_articles_batch_def sample_try_fetch)

theorem get_articles_batch_only_new_witness:
  "collected_urls sample_crawler = {KStr ''https://a.com/1''}
   \<and> fst (fst (get_articles_batch (sample_env sample_body) 1 0 sample_crawler sample_world))
        = [article_two]
   \<and> url_of article_two = JStr ''https://a.com/2''
   \<and> truthy (url_of article_two)
   \<and> (\<exists>k. hash_key (url_of article_two) = Some k \<and> k \<notin> collected_urls sample_crawler)"
  using get_articles_batch_only_new[of "sample_env sample_body" 1 0 sample_crawler sample_world]
  by (simp add: sample_get_articles_batch) (simp add: sample_crawler_def article_two_def url_of_def dict_get_def)

text \<open>
  Claim C6. When the request fails in transport, comes back with an error status or
  with a body that is not JSON, when the body's \<open>status\<close> is missing or is not
  \<open>'ok'\<close>, when \<open>articles\<close> is missing, and in general whenever anything inside
  the \<open>try\<close> raises, \<open>get_articles_batch\<close> returns \<open>([], 0)\<close>; being a total
  function into pairs, it never passes an exception on.
\<close>

theorem get_articles_batch_failure:
  assumes "http e (requests w) (request_params e page off c w) = out"
    and "out = TransportFailure \<or> out = BadStatus \<or> out = NotJson
         \<or> (\<exists>data. out = Body data \<and> py_item data ''status'' \<noteq> Inr (JStr ''ok''))
         \<or> (\<exists>data err. out = Body data \<and> py_item data ''articles'' = Inl err)
         \<or> (\<exists>err. fst (try_fetch e page off c w) = Inl err)"
  shows "fst (get_articles_batch e page off c w) = ([], JInt 0)"
proof -
  have "\<exists>err. fst (try_fetch e page off c w) = Inl err"
    using assms handle_response_failures handle_response_status handle_response_articles
    by (fastforce simp: try_fetch_handle)
  then show ?thesis using get_articles_batch_failed by blast
qed

theorem get_articles_batch_failure_witness:
  "http (sample_env failed_body) (requests sample_world)
       (request_params (sample_env failed_body) 1 0 sample_crawler sample_world) = Body failed_body
   \<and> py_item failed_body ''status'' = Inr (JStr ''error'')
   \<and> fst (get_articles_batch (sample_env failed_body) 1 0 sample_crawler sample_world)
        = ([], JInt 0)"
proof -
  have 1: "http (sample_env failed_body) (requests sample_world)
       (request_params (sample_env failed_body) 1 0 sample_crawler sample_world) = Body failed_body"
    by (simp add: sample_env_def)
  have 2: "py_item failed_body ''status'' = Inr (JStr ''error'')"
    by (simp add: failed_body_def py_item_def)
  have 3: "py_item failed_body ''status'' \<noteq> Inr (JStr ''ok'')"
    by (simp add: 2)
  show ?thesis using get_articles_batch_failure[OF 1] 1 2 3 by blast
qed

text \<open>
  Claim C8. \<open>collected_urls\<close> only grows: \<open>get_articles_batch\<close> and the whole of
  \<open>run\<close> leave it a superset of what it was, \<open>save_checkpoint\<close> leaves it as it was,
  and when the \<open>try\<close> of a fetch ends with its \<open>return\<close>, the set afterwards is the
  set before together with the URLs of the articles returned.
\<close>

theorem collected_urls_only_grows:
  "collected_urls c \<subseteq> collected_urls (fst (snd (get_articles_batch e page off c w)))
   \<and> collected_urls (fst (save_checkpoint e c w)) = collected_urls c
   \<and> collected_urls c \<subseteq> collected_urls (fst (snd (run e c w)))
   \<and> (try_fetch e page off c w = (Inr (arts, tot), c', w') \<longrightarrow>
        get_articles_batch e page off c w = ((arts, tot), c', w')
        \<and> collected_urls c' = collected_urls c \<union> url_keys arts)"
proof -
  obtain r c1 w1 where g: "get_articles_batch e page off c w = (r, c1, w1)"
    by (metis prod.exhaust)
  have 1: "collected_urls c \<subseteq> collected_urls (fst (snd (get_articles_batch e page off c w)))"
    using get_articles_batch_mono[OF g] g by simp
  have 2: "collected_urls (fst (save_checkpoint e c w)) = collected_urls c"
    by (simp add: save_checkpoint_def)
  have 4: "try_fetch e page off c w = (Inr (arts, tot), c', w') \<longrightarrow>
        get_articles_batch e page off c w = ((arts, tot), c', w')
        \<and> collected_urls c' = collected_urls c \<union> url_keys arts"
    using try_fetch_inv(2)[of e page off c w "Inr (arts, tot)" c' w' arts tot]
      get_articles_batch_returned[of e page off c w arts tot c' w'] by simp
  show ?thesis using 1 2 run_mono 4 by blast
qed

lemma sample_url_keys:
  "url_keys [article_two] = {KStr ''https://a.com/2''}"
  by (auto simp: url_keys_def article_two_def url_of_def dict_get_def)

theorem collected_urls_only_grows_witness:
  "try_fetch (sample_env sample_body) 1 0 sample_crawler sample_world
     = (Inr ([article_two], JInt 2),
        sample_crawler\<lparr>collected_urls := {KStr ''https://a.com/2'', KStr ''https://a.com/1''}\<rparr>,
        sample_world\<lparr>ticks := 3, requests := 1\<rparr>)
   \<and> {KStr ''https://a.com/2'', KStr ''https://a.com/1''}
        = collected_urls sample_crawler \<union> url_keys [article_two]
   \<and> collected_urls sample_crawler
        \<subseteq> collected_urls (fst (snd (run (sample_env sample_body) sample_crawler sample_world)))"
  using collected_urls_only_grows[of sample_crawler "sample_env sample_body" 1 0 sample_world
      "[article_two]" "JInt 2"
      "sample_crawler\<lparr>collected_urls := {KStr ''https://a.com/2'', KStr ''https://a.com/1''}\<rparr>"
      "sample_world\<lparr>ticks := 3, requests := 1\<rparr>"]
    sample_try_fetch
  by simp

lemma keys_of_json_of_key: "keys_of (map json_of_key ks) = Some ks"
proof (induction ks)
  case Nil
  then show ?case by simp
next
  case (Cons k ks)
  have "hash_key (json_of_key k) = Some k" by (cases k) simp_all
  with Cons show ?case by simp
qed

lemma py_set_keys: "py_set (JArr (map json_of_key ks)) = Inr (set ks)"
  by (simp add: py_set_def py_iter_def keys_of_json_of_key)

lemma checkpoint_doc_fields:
  "py_item (checkpoint_doc e c w) ''collected_urls''
     = Inr (JArr (map json_of_key (list_of_set e (collected_urls c))))"
  "py_item (checkpoint_doc e c w) ''total_articles'' = Inr (JInt (int (card (collected_urls c))))"
  "py_get (checkpoint_doc e c w) ''collected_urls'' (JArr [])
     = Inr (JArr (map json_of_key (list_of_set e (collected_urls c))))"
  by (simp_all add: checkpoint_doc_def py_item_def py_get_def dict_get_def)

lemma save_checkpoint_file:
  "files (snd (save_checkpoint e c w)) (checkpoint_file c) = Some (Json (checkpoint_doc e c w))"
  by (simp add: save_checkpoint_def)

text \<open>
  Claim C9. The document that \<open>save_checkpoint\<close> writes has \<open>total_articles\<close> equal
  to the number of members of \<open>collected_urls\<close>, and its \<open>collected_urls\<close> lists the
  members of that set, each once.
\<close>

theorem save_checkpoint_document:
  assumes "enumerates e (collected_urls c)"
  shows "files (snd (save_checkpoint e c w)) (checkpoint_file c)
           = Some (Json (checkpoint_doc e c w))
         \<and> py_item (checkpoint_doc e c w) ''total_articles''
             = Inr (JInt (int (card (collected_urls c))))
         \<and> (\<exists>ks. py_item (checkpoint_doc e c w) ''collected_urls''
                    = Inr (JArr (map json_of_key ks))
                  \<and> set ks = collected_urls c \<and> distinct ks
                  \<and> length ks = card (collected_urls c))"
proof -
  define ks where "ks = list_of_set e (collected_urls c)"
  have s: "set ks = collected_urls c" and d: "distinct ks"
    using assms by (simp_all add: enumerates_def ks_def)
  have l: "length ks = card (collected_urls c)"
    using distinct_card[OF d] s by simp
  have "py_item (checkpoint_doc e c w) ''collected_urls'' = Inr (JArr (map json_of_key ks))"
    by (simp add: checkpoint_doc_fields ks_def)
  then show ?thesis
    using s d l save_checkpoint_file checkpoint_doc_fields(2) by blast
qed

lemma sample_order_two:
  "sample_order two_urls = [KStr ''https://a.com/2'', KStr ''https://a.com/1'']"
  by (simp add: sample_order_def two_urls_def)

lemma sample_enumerates:
  "enumerates (sample_env body) (collected_urls (sample_crawler\<lparr>collected_urls := two_urls\<rparr>))"
  by (simp add: enumerates_def sample_env_def sample_order_two) (auto simp: two_urls_def)

theorem save_checkpoint_document_witness:
  "enumerates (sample_env sample_body) (collected_urls (sample_crawler\<lparr>collected_urls := two_urls\<rparr>))
   \<and> py_item (checkpoint_doc (sample_env sample_body) (sample_crawler\<lparr>collected_urls := two_urls\<rparr>)
                sample_world) ''total_articles'' = Inr (JInt 2)
   \<and> py_item (checkpoint_doc (sample_env sample_body) (sample_crawler\<lparr>collected_urls := two_urls\<rparr>)
                sample_world) ''collected_urls''
        = Inr (JArr [JStr ''https://a.com/2'', JStr ''https://a.com/1''])"
proof -
  have c: "card two_urls = 2" by (simp add: two_urls_def)
  have "py_item (checkpoint_doc (sample_env sample_body) (sample_crawler\<lparr>collected_urls := two_urls\<rparr>)
                sample_world) ''collected_urls''
        = Inr (JArr [JStr ''https://a.com/2'', JStr ''https://a.com/1''])"
    by (simp add: checkpoint_doc_fields sample_env_def sample_order_two)
  then show ?thesis
    using save_checkpoint_document[OF sample_enumerates, of sample_body sample_world]
      sample_enumerates c by simp
qed

text \<open>
  Claim C5. Saving the checkpoint and loading it into an object that names the same
  checkpoint file gives back exactly the set that was saved, in whatever order the
  members were written.
\<close>

theorem checkpoint_round_trip:
  assumes "enumerates e (collected_urls c)"
    and "checkpoint_file c0 = checkpoint_file c"
  shows "collected_urls (load_checkpoint c0 (snd (save_checkpoint e c w))) = collected_urls c"
proof -
  have "files (snd (save_checkpoint e c w)) (checkpoint_file c0)
          = Some (Json (checkpoint_doc e c w))"
    using assms(2) save_checkpoint_file by simp
  moreover have "set (list_of_set e (collected_urls c)) = collected_urls c"
    using assms(1) by (simp add: enumerates_def)
  ultimately show ?thesis
    by (simp add: load_checkpoint_def checkpoint_doc_fields py_set_keys)
qed

theorem checkpoint_round_trip_witness:
  "enumerates (sample_env sample_body) (collected_urls (sample_crawler\<lparr>collected_urls := two_urls\<rparr>))
   \<and> list_of_set (sample_env sample_body) two_urls
        = [KStr ''https://a.com/2'', KStr ''https://a.com/1'']
   \<and> collected_urls
        (load_checkpoint (sample_crawler\<lparr>collected_urls := {}\<rparr>)
           (snd (save_checkpoint (sample_env sample_body)
                   (sample_crawler\<lparr>collected_urls := two_urls\<rparr>) sample_world)))
        = {KStr ''https://a.com/1'', KStr ''https://a.com/2''}"
  using checkpoint_round_trip[OF sample_enumerates,
      of "sample_crawler\<lparr>collected_urls := {}\<rparr>" sample_body sample_world]
    sample_enumerates[of sample_body]
  by (simp add: sample_env_def sample_order_two) (simp add: two_urls_def)

section \<open>Facts about timestamp normalization\<close>

lemma sample_parse_fails: "parse_datetime sample_lib ''not a date'' = None"
  by (simp add: parse_datetime_def sample_lib_def sample_fields_def)

lemma sample_parse_iso:
  "format_datetime sample_lib (strftime_seconds sample_lib) ''2024-05-08T10:00:00Z''
     = Some ''2024-05-08 10:00:00''"
  by (simp add: format_datetime_def parse_datetime_def sample_lib_def sample_fromisoformat_def
      sample_fields_def py_replace_def number_of_def digit_of_def sample_strftime_seconds_def
      pad_def str_nat.simps digit_char_def)

text \<open>
  Claim C1, as the code has it. For a timestamp string that is not empty and that
  parses by neither form, \<open>normalize_datetime\<close> of the Normalizer returns the string
  unchanged, while \<open>normalize_datetime\<close> of the SQL emitter returns \<open>None\<close>. The two
  agree where the string parses and formats: both then give the formatted text.
\<close>

theorem normalize_datetime_unparsable:
  assumes "s \<noteq> []"
  shows "(parse_datetime lib s = None \<longrightarrow>
            normalize_datetime lib (Some s) = s \<and> sql_normalize_datetime lib (Some s) = None)
         \<and> (format_datetime lib (strftime_seconds lib) s = Some text \<longrightarrow>
              normalize_datetime lib (Some s) = text
              \<and> sql_normalize_datetime lib (Some s) = Some text)"
  using assms
  by (simp add: normalize_datetime_def sql_normalize_datetime_def format_datetime_def py_bool_def)

theorem normalize_datetime_unparsable_witness:
  "''not a date'' \<noteq> [] \<and> parse_datetime sample_lib ''not a date'' = None
   \<and> normalize_datetime sample_lib (Some ''not a date'') = ''not a date''
   \<and> sql_normalize_datetime sample_lib (Some ''not a date'') = None"
  using normalize_datetime_unparsable[of "''not a date''" sample_lib] sample_parse_fails
  by simp

text \<open>
  The claim as it was stated fails on the SQL emitter: on \<open>not a date\<close> the
  Normalizer returns the string and the SQL emitter does not.
\<close>

theorem normalize_datetime_disagree:
  "normalize_datetime sample_lib (Some ''not a date'') = ''not a date''
   \<and> sql_normalize_datetime sample_lib (Some ''not a date'') \<noteq> Some ''not a date''"
  using sample_parse_fails
  by (simp add: normalize_datetime_def sql_normalize_datetime_def format_datetime_def py_bool_def)

section \<open>The later stages without input\<close>

text \<open>
  Claim C7. With no batch file in the data directory, \<open>process_all\<close> and
  \<open>generate_all_sql\<close> each print that no articles were found and return without
  writing a file.
\<close>

theorem no_batch_files_no_output:
  "process_all lib tm processed_dir []
     = \<lparr>printed = [Starting_processing, Found_files 0, No_articles_found], written = [], returned = None\<rparr>
   \<and> generate_all_sql lib tm output_dir []
     = \<lparr>printed = [Starting_sql_generation, Found_files 0, No_articles_found], written = [], returned = None\<rparr>"
  by (simp add: process_all_def generate_all_sql_def)

lemma no_articles_no_output:
  "fst (load_json_files dir) = [] \<Longrightarrow>
     written (process_all lib tm processed_dir dir) = []
     \<and> returned (process_all lib tm processed_dir dir) = None
     \<and> last (printed (process_all lib tm processed_dir dir)) = No_articles_found
     \<and> written (generate_all_sql lib tm output_dir dir) = []
     \<and> returned (generate_all_sql lib tm output_dir dir) = None
     \<and> last (printed (generate_all_sql lib tm output_dir dir)) = No_articles_found"
  by (cases "load_json_files dir") (simp add: process_all_def generate_all_sql_def)

lemma articles_give_output:
  "fst (load_json_files dir) \<noteq> [] \<Longrightarrow>
     length (written (process_all lib tm processed_dir dir)) = 2
     \<and> length (written (generate_all_sql lib tm output_dir dir)) = 4"
  by (cases "load_json_files dir") (simp add: process_all_def generate_all_sql_def Let_def)

section \<open>Deduplication by URL\<close>

lemma drop_duplicates_keys:
  "set (map key (drop_duplicates key seen rs)) = set (map key rs) - set seen"
  by (induction rs arbitrary: seen) auto

lemma drop_duplicates_distinct:
  "distinct (map key (drop_duplicates key seen rs))"
proof (induction rs arbitrary: seen)
  case Nil
  then show ?case by simp
next
  case (Cons r rs)
  have "key r \<notin> set (map key (drop_duplicates key (key r # seen) rs))"
    unfolding drop_duplicates_keys by simp
  with Cons show ?case by simp
qed

lemma drop_duplicates_none:
  "k \<in> set seen \<Longrightarrow> filter (\<lambda>r. key r = k) (drop_duplicates key seen rs) = []"
proof -
  assume "k \<in> set seen"
  then have "k \<notin> set (map key (drop_duplicates key seen rs))"
    unfolding drop_duplicates_keys by simp
  then show ?thesis by (auto simp: filter_empty_conv)
qed

lemma drop_duplicates_first:
  "k \<notin> set seen \<Longrightarrow> i < length rs \<Longrightarrow> key (rs ! i) = k \<Longrightarrow> \<forall>j < i. key (rs ! j) \<noteq> k \<Longrightarrow>
     filter (\<lambda>r. key r = k) (drop_duplicates key seen rs) = [rs ! i]"
proof (induction rs arbitrary: seen i)
  case Nil
  then show ?case by simp
next
  case (Cons r rs)
  show ?case
  proof (cases i)
    case 0
    with Cons.prems have k: "key r = k" by simp
    have "filter (\<lambda>r. key r = k) (drop_duplicates key (key r # seen) rs) = []"
      by (rule drop_duplicates_none) (simp add: k)
    with Cons.prems k 0 show ?thesis by simp
  next
    case (Suc n)
    with Cons.prems have ne: "key r \<noteq> k" by auto
    have n: "n < length rs" "key (rs ! n) = k" "\<forall>j < n. key (rs ! j) \<noteq> k"
      using Cons.prems Suc by auto
    show ?thesis
    proof (cases "key r \<in> set seen")
      case True
      with Cons.IH[OF Cons.prems(1) n] Suc show ?thesis by simp
    next
      case False
      have "k \<notin> set (key r # seen)" using ne Cons.prems(1) by auto
      from Cons.IH[OF this n] False ne Suc show ?thesis by simp
    qed
  qed
qed

lemma first_index:
  "k \<in> set (map key rs) \<Longrightarrow> \<exists>i < length rs. key (rs ! i) = k \<and> (\<forall>j < i. key (rs ! j) \<noteq> k)"
proof -
  assume "k \<in> set (map key rs)"
  then obtain x where "find (\<lambda>r. key r = k) rs = Some x"
    by (cases "find (\<lambda>r. key r = k) rs") (auto simp: find_None_iff)
  then show ?thesis by (auto simp: find_Some_iff)
qed

lemma typed_rows_nth: "i < length rs \<Longrightarrow> typed_rows lib rs ! i = typed_row lib rs i"
  by (simp add: typed_rows_def)

lemma typed_rows_length: "length (typed_rows lib rs) = length rs"
  by (simp add: typed_rows_def)

lemma typed_row_url: "url (typed_row lib rs i) = url (rs ! i)"
  by (simp add: typed_row_def Let_def)

lemma typed_rows_urls: "map url (typed_rows lib rs) = map url rs"
  by (rule nth_equalityI) (simp_all add: typed_rows_length typed_rows_nth typed_row_url)

text \<open>
  Claim C3. For every list of normalized records, the table that \<open>create_dataframe\<close>
  returns has one row for each URL that occurs in the list and no two rows with the
  same URL; the row for a URL is the typed form of the first record with that URL, and
  in particular carries that record's title.
\<close>

theorem create_dataframe_first_per_url:
  "distinct (map url (create_dataframe lib rs))
   \<and> set (map url (create_dataframe lib rs)) = set (map url rs)
   \<and> (\<forall>u \<in> set (map url rs).
        \<exists>i < length rs. url (rs ! i) = u \<and> (\<forall>j < i. url (rs ! j) \<noteq> u)
          \<and> filter (\<lambda>r. url r = u) (create_dataframe lib rs) = [typed_row lib rs i]
          \<and> title (typed_row lib rs i) = title (rs ! i))"
proof -
  have 1: "distinct (map url (create_dataframe lib rs))"
    by (simp add: create_dataframe_def drop_duplicates_distinct)
  have 2: "set (map url (create_dataframe lib rs)) = set (map url rs)"
    unfolding create_dataframe_def drop_duplicates_keys typed_rows_urls by simp
  have 3: "\<exists>i < length rs. url (rs ! i) = u \<and> (\<forall>j < i. url (rs ! j) \<noteq> u)
          \<and> filter (\<lambda>r. url r = u) (create_dataframe lib rs) = [typed_row lib rs i]
          \<and> title (typed_row lib rs i) = title (rs ! i)"
    if u: "u \<in> set (map url rs)" for u
  proof -
    from first_index[OF u] obtain i where
      i: "i < length rs" "url (rs ! i) = u" "\<forall>j < i. url (rs ! j) \<noteq> u"
      by blast
    have a: "i < length (typed_rows lib rs)" using i(1) by (simp add: typed_rows_length)
    have b: "url (typed_rows lib rs ! i) = u"
      using i(1,2) by (simp add: typed_rows_nth typed_row_url)
    have c: "\<forall>j < i. url (typed_rows lib rs ! j) \<noteq> u"
      using i(1,3) by (simp add: typed_rows_nth typed_row_url)
    have "filter (\<lambda>r. url r = u) (drop_duplicates url [] (typed_rows lib rs))
            = [typed_rows lib rs ! i]"
      by (rule drop_duplicates_first[OF _ a b c]) simp
    then have "filter (\<lambda>r. url r = u) (create_dataframe lib rs) = [typed_row lib rs i]"
      using i(1) by (simp add: create_dataframe_def typed_rows_nth)
    moreover have "title (typed_row lib rs i) = title (rs ! i)"
      by (simp add: typed_row_def Let_def)
    ultimately show ?thesis using i by blast
  qed
  from 1 2 3 show ?thesis by blast
qed

lemma sample_dataframe:
  "create_dataframe sample_lib [record_titled ''T1'', record_titled ''T2'']
     = [typed_row sample_lib [record_titled ''T1'', record_titled ''T2''] 0]"
  by (simp add: create_dataframe_def typed_rows_def typed_row_def record_titled_def Let_def)

lemma sample_typed_row:
  "typed_row sample_lib [record_titled ''T1'', record_titled ''T2''] 0
     = \<lparr>title = ''T1'', description = [], url = Some ''https://x.com/a'', source = None,
      published_at = Some (2024, 5, 8, 10, 0, 0), author = [], image_url = None,
      scraped_at = Some (2024, 5, 9, 11, 30, 0), date_range = None, has_image = False,
      has_author = False, domain = ''x.com'', published_date = Some (2024, 5, 8, 0, 0, 0),
      scraped_date = Some (2024, 5, 9, 0, 0, 0), word_count = 0\<rparr>"
  by (simp add: typed_row_def record_titled_def Let_def sample_lib_def sample_to_datetime_def
      sample_fields_def number_of_def digit_of_def sample_dt_date_def)

theorem create_dataframe_first_per_url_witness:
  "map url [record_titled ''T1'', record_titled ''T2'']
     = [Some ''https://x.com/a'', Some ''https://x.com/a'']
   \<and> map title [record_titled ''T1'', record_titled ''T2''] = [''T1'', ''T2'']
   \<and> map url (create_dataframe sample_lib [record_titled ''T1'', record_titled ''T2''])
        = [Some ''https://x.com/a'']
   \<and> map title (create_dataframe sample_lib [record_titled ''T1'', record_titled ''T2''])
        = [''T1'']"
  using create_dataframe_first_per_url[of sample_lib "[record_titled ''T1'', record_titled ''T2'']"]
  by (simp add: sample_dataframe sample_typed_row) (simp add: record_titled_def)

section \<open>Rendering of SQL values\<close>

lemma py_strip_hd:
  assumes "py_strip s \<noteq> []"
  shows "\<not> py_isspace (hd (py_strip s))"
proof -
  define d where "d = dropWhile py_isspace s"
  have dne: "d \<noteq> []"
  proof
    assume e: "d = []"
    have "py_strip s = rev (dropWhile py_isspace (rev d))" by (simp add: py_strip_def d_def)
    then have "py_strip s = []" unfolding e by simp
    with assms show False by simp
  qed
  then have h: "\<not> py_isspace (hd d)" unfolding d_def by (rule hd_dropWhile)
  have "rev d = rev (tl d) @ [hd d]" using dne by (cases d) simp_all
  then have "dropWhile py_isspace (rev d) = dropWhile py_isspace (rev (tl d)) @ [hd d]"
    using h by (simp add: dropWhile_append3)
  then have "py_strip s = hd d # rev (dropWhile py_isspace (rev (tl d)))"
    by (simp add: py_strip_def d_def)
  then show ?thesis using h by simp
qed

lemma py_split_nonempty: "s \<noteq> [] \<Longrightarrow> \<not> py_isspace (hd s) \<Longrightarrow> py_split s \<noteq> []"
  by (cases s) simp_all

lemma clean_text_empty_iff:
  "clean_text t = [] \<longleftrightarrow> (case t of None \<Rightarrow> True | Some s \<Rightarrow> s = [] \<or> py_strip s = [])"
proof (cases t)
  case None
  then show ?thesis by (simp add: clean_text_def)
next
  case (Some s)
  show ?thesis
  proof (cases "s = [] \<or> py_strip s = []")
    case True
    with Some show ?thesis by (auto simp: clean_text_def)
  next
    case False
    then have ne: "py_split (py_strip s) \<noteq> []"
      using py_strip_hd py_split_nonempty by blast
    have "\<forall>w \<in> set (py_split (py_strip s)). is_word w" using py_split_words by blast
    from py_join_ends[OF ne this] False Some show ?thesis by (simp add: clean_text_def)
  qed
qed

lemma sql_clean_text_clean_text:
  "sql_clean_text t =
     (if clean_text t = [] then None
      else Some (py_replace (CHR 0x27) [CHR 0x27, CHR 0x27] (clean_text t)))"
  unfolding clean_text_empty_iff
  by (cases t) (auto simp: sql_clean_text_def clean_text_def)

lemma text_rendering:
  "escape_sql_value (of_optional (sql_clean_text t)) =
     (if clean_text t = [] then ''NULL''
      else [CHR 0x27] @ py_replace (CHR 0x27) [CHR 0x27, CHR 0x27] (clean_text t) @ [CHR 0x27])"
  by (simp add: sql_clean_text_clean_text of_optional_def)

lemma domain_rendering:
  "sql_extract_domain lib (raw_url article) = Some d \<Longrightarrow>
     escape_sql_value (column_value (transform_article lib article) ''domain'')
       = [CHR 0x27] @ d @ [CHR 0x27]"
  by (simp add: transform_article_def column_value_def of_optional_def)

lemma sample_domain:
  "sql_extract_domain sample_lib (raw_url obrien_article) = Some (''o'' @ CHR 0x27 # ''brien.com'')"
  by (simp add: sql_extract_domain_def py_bool_def obrien_article_def sample_lib_def
      sample_netloc_def)

lemma sample_title:
  "sql_clean_text (raw_title obrien_article)
     = Some (''O'' @ CHR 0x27 # CHR 0x27 # ''Brien'' @ CHR 0x27 # CHR 0x27 # ''s report'')"
  by (simp add: sql_clean_text_def obrien_article_def py_strip_def py_isspace_def py_replace_def)

text \<open>
  Claim C4 asks that every string value of a transformed article be rendered with its
  single quotes doubled. The text columns are (\<open>text_rendering\<close>), and so is the
  title \<open>O'Brien's report\<close>. The \<open>domain\<close> column is not: it comes from
  \<open>extract_domain\<close>, never passes through \<open>clean_text\<close>, and is wrapped in quotes as
  it is. For the URL \<open>https://o'brien.com/a\<close> the row holds \<open>'o'brien.com'\<close>.
\<close>

theorem domain_quote_not_doubled:
  "escape_sql_value (column_value (transform_article sample_lib obrien_article) ''title'')
     = CHR 0x27 # ''O'' @ CHR 0x27 # CHR 0x27 # ''Brien'' @ CHR 0x27 # CHR 0x27 # ''s report''
         @ [CHR 0x27]
   \<and> escape_sql_value (column_value (transform_article sample_lib obrien_article) ''domain'')
     = CHR 0x27 # ''o'' @ CHR 0x27 # ''brien.com'' @ [CHR 0x27]"
  using sample_title sample_domain
  by (simp add: transform_article_def column_value_def of_optional_def)

end
